theory Spec2Isabelle
  imports Complex_Main "HOL-Library.Sublist"
begin

section \<open>Values, exceptions and outcomes\<close>

text \<open>
  The Python values that the functions of \<^verbatim>\<open>humanfriendly/testing.py\<close> pass around.
  \<open>PBool False\<close> is the singleton \<^verbatim>\<open>False\<close>; \<open>PInt 0\<close> is a different object, so
  the test \<^verbatim>\<open>result is not False\<close> of \<^verbatim>\<open>retry\<close> separates them. \<open>PStringIO i\<close> is a
  reference to the in-memory stream number \<open>i\<close>.
\<close>

datatype pyval =
    PNone
  | PBool bool
  | PInt int
  | PStr string
  | PList "pyval list"
  | PStringIO nat

text \<open>
  Exceptions are values. \<open>SystemExit c\<close> carries the attribute \<^verbatim>\<open>code\<close>, which is
  \<open>PNone\<close> when \<^verbatim>\<open>sys.exit()\<close> was called without an argument.
\<close>

datatype exn =
    AssertionError string
  | CallableTimedOut
  | SystemExit pyval
  | KeyError
  | AttributeError
  | OSError
  | OtherError string

text \<open>
  A call either raises (\<open>Inl\<close>) or returns (\<open>Inr\<close>); in both cases the effects it had on
  the state so far stay, so the state is returned beside the result.
\<close>

type_synonym ('a, 's) outcome = "(exn + 'a) \<times> 's"

section \<open>ContextManager, PatchedAttribute and PatchedItem\<close>

text \<open>
  \<^verbatim>\<open>NOTHING = object()\<close> is a unique object that is compared by identity
  (\<^verbatim>\<open>is NOTHING\<close>). The field \<^verbatim>\<open>original_value\<close> holds either that object or a value
  read from the patched object, which is the type \<open>'v original\<close>.
\<close>

datatype 'v original = NOTHING | Value 'v

text \<open>
  Both patch classes have the same three fields besides \<^verbatim>\<open>object_to_patch\<close>; the name
  to patch is \<^verbatim>\<open>attribute_to_patch\<close> in PatchedAttribute and \<^verbatim>\<open>item_to_patch\<close> in
  PatchedItem. The object to patch is mutable and shared with the caller: it is the
  state that the methods take and return. An object is seen through
  \<^verbatim>\<open>getattr\<close>/\<^verbatim>\<open>setattr\<close>/\<^verbatim>\<open>delattr\<close> as a map from attribute names to values, a mapping
  through \<^verbatim>\<open>[]\<close> and \<^verbatim>\<open>del\<close> as a map from keys to values.
\<close>

record ('k, 'v) patch =
  to_patch :: 'k
  patched_value :: 'v
  original_value :: "'v original"

definition ContextManager_enter :: "'s \<Rightarrow> 's" where
  "ContextManager_enter self = self"

definition ContextManager_exit :: "'s \<Rightarrow> 's" where
  "ContextManager_exit self = self"

definition getattr_default :: "(string \<rightharpoonup> 'v) \<Rightarrow> string \<Rightarrow> 'v original" where
  \<comment> \<open>\<^verbatim>\<open>getattr(obj, name, NOTHING)\<close>\<close>
  "getattr_default obj name = (case obj name of None \<Rightarrow> NOTHING | Some v \<Rightarrow> Value v)"

definition setattr :: "(string \<rightharpoonup> 'v) \<Rightarrow> string \<Rightarrow> 'v \<Rightarrow> (string \<rightharpoonup> 'v)" where
  "setattr obj name v = obj(name \<mapsto> v)"

definition delattr :: "(string \<rightharpoonup> 'v) \<Rightarrow> string \<Rightarrow> (unit, string \<rightharpoonup> 'v) outcome" where
  \<comment> \<open>\<^verbatim>\<open>delattr\<close> raises AttributeError when the attribute is not there\<close>
  "delattr obj name =
     (if name \<in> dom obj then (Inr (), obj(name := None)) else (Inl AttributeError, obj))"

definition getitem :: "('k \<rightharpoonup> 'v) \<Rightarrow> 'k \<Rightarrow> exn + 'v" where
  \<comment> \<open>\<^verbatim>\<open>obj[item]\<close> raises KeyError when the key is not there\<close>
  "getitem obj item = (case obj item of None \<Rightarrow> Inl KeyError | Some v \<Rightarrow> Inr v)"

definition setitem :: "('k \<rightharpoonup> 'v) \<Rightarrow> 'k \<Rightarrow> 'v \<Rightarrow> ('k \<rightharpoonup> 'v)" where
  "setitem obj item v = obj(item \<mapsto> v)"

definition delitem :: "('k \<rightharpoonup> 'v) \<Rightarrow> 'k \<Rightarrow> (unit, 'k \<rightharpoonup> 'v) outcome" where
  \<comment> \<open>\<^verbatim>\<open>del obj[item]\<close> raises KeyError when the key is not there\<close>
  "delitem obj item =
     (if item \<in> dom obj then (Inr (), obj(item := None)) else (Inl KeyError, obj))"

definition patch_init :: "'k \<Rightarrow> 'v \<Rightarrow> ('k, 'v) patch" where
  \<comment> \<open>\<^verbatim>\<open>__init__\<close> of both classes\<close>
  "patch_init name v = \<lparr>to_patch = name, patched_value = v, original_value = NOTHING\<rparr>"

text \<open>
  \<^verbatim>\<open>PatchedAttribute.__enter__\<close> (lines 173-184). On an instance of PatchedAttribute the
  call through \<^verbatim>\<open>super\<close> reaches \<^verbatim>\<open>ContextManager.__enter__\<close>.
\<close>

definition PatchedAttribute_enter ::
  "(string, 'v) patch \<Rightarrow> (string \<rightharpoonup> 'v) \<Rightarrow> (string, 'v) patch \<times> (string \<rightharpoonup> 'v)" where
  "PatchedAttribute_enter self obj =
     (let self = ContextManager_enter self;
          self = self\<lparr>original_value := getattr_default obj (to_patch self)\<rparr>;
          obj = setattr obj (to_patch self) (patched_value self)
      in (self, obj))"

text \<open>\<^verbatim>\<open>PatchedAttribute.__exit__\<close> (lines 186-194).\<close>

definition PatchedAttribute_exit ::
  "(string, 'v) patch \<Rightarrow> (string \<rightharpoonup> 'v) \<Rightarrow> (unit, (string, 'v) patch \<times> (string \<rightharpoonup> 'v)) outcome" where
  "PatchedAttribute_exit self obj =
     (let self = ContextManager_exit self
      in case original_value self of
           NOTHING \<Rightarrow> (case delattr obj (to_patch self) of (r, obj) \<Rightarrow> (r, (self, obj)))
         | Value v \<Rightarrow> (Inr (), (self, setattr obj (to_patch self) v)))"

text \<open>
  The statements of \<^verbatim>\<open>PatchedItem.__enter__\<close> after the call through \<^verbatim>\<open>super\<close>
  (lines 223-228), and those of \<^verbatim>\<open>PatchedItem.__exit__\<close> (lines 235-238). Which method
  the call through \<^verbatim>\<open>super\<close> reaches depends on the class of the instance, so the
  two parts are composed per class. The only exception that \<open>getitem\<close> raises is
  KeyError, the one that line 225 catches.
\<close>

definition PatchedItem_enter_body ::
  "('k, 'v) patch \<Rightarrow> ('k \<rightharpoonup> 'v) \<Rightarrow> ('k, 'v) patch \<times> ('k \<rightharpoonup> 'v)" where
  "PatchedItem_enter_body self obj =
     (let self = (case getitem obj (to_patch self) of
                    Inr v \<Rightarrow> self\<lparr>original_value := Value v\<rparr>
                  | Inl e \<Rightarrow> self\<lparr>original_value := NOTHING\<rparr>);
          obj = setitem obj (to_patch self) (patched_value self)
      in (self, obj))"

definition PatchedItem_exit_body ::
  "('k, 'v) patch \<Rightarrow> ('k \<rightharpoonup> 'v) \<Rightarrow> (unit, ('k, 'v) patch \<times> ('k \<rightharpoonup> 'v)) outcome" where
  "PatchedItem_exit_body self obj =
     (case original_value self of
        NOTHING \<Rightarrow> (case delitem obj (to_patch self) of (r, obj) \<Rightarrow> (r, (self, obj)))
      | Value v \<Rightarrow> (Inr (), (self, setitem obj (to_patch self) v)))"

text \<open>On an instance of PatchedItem itself, \<^verbatim>\<open>super\<close> reaches ContextManager.\<close>

definition PatchedItem_enter ::
  "('k, 'v) patch \<Rightarrow> ('k \<rightharpoonup> 'v) \<Rightarrow> ('k, 'v) patch \<times> ('k \<rightharpoonup> 'v)" where
  "PatchedItem_enter self obj = PatchedItem_enter_body (ContextManager_enter self) obj"

definition PatchedItem_exit ::
  "('k, 'v) patch \<Rightarrow> ('k \<rightharpoonup> 'v) \<Rightarrow> (unit, ('k, 'v) patch \<times> ('k \<rightharpoonup> 'v)) outcome" where
  "PatchedItem_exit self obj = PatchedItem_exit_body (ContextManager_exit self) obj"

section \<open>The process environment, the file system and the clock\<close>

text \<open>
  What the module reaches outside itself is one record. \<open>environ\<close> is \<^verbatim>\<open>os.environ\<close>,
  \<open>fs\<close> the file system (a path is there as a directory or as a regular file),
  \<open>sys\<close> the attributes of the module \<^verbatim>\<open>sys\<close>, \<open>stringio\<close> the contents of the
  in-memory streams by number, \<open>now\<close> what \<^verbatim>\<open>time.time()\<close> returns. \<open>pathsep\<close> and
  \<open>defpath\<close> are the platform constants \<^verbatim>\<open>os.pathsep\<close> (one character) and
  \<^verbatim>\<open>os.defpath\<close>. \<open>mkdtemp_names\<close> are the candidate names that \<^verbatim>\<open>tempfile.mkdtemp\<close>
  will draw, \<open>random_strings\<close> the results that \<^verbatim>\<open>random_string\<close> will give.
  \<open>trace\<close> records the effects in the order in which they happen.
\<close>

datatype node = Directory | RegularFile

datatype event =
    Mkdtemp string
  | Rmtree string
  | ItemPatched string string
  | ItemRestored string "string original"
  | AttrPatched string
  | AttrRestored string
  | Sleep real

record world =
  environ :: "string \<rightharpoonup> string"
  fs :: "string \<rightharpoonup> node"
  sys :: "string \<rightharpoonup> pyval"
  stringio :: "string list"
  now :: real
  pathsep :: char
  defpath :: string
  mkdtemp_names :: "string list"
  random_strings :: "string list"
  trace :: "event list"

definition emit :: "event \<Rightarrow> world \<Rightarrow> world" where
  "emit e w = w\<lparr>trace := trace w @ [e]\<rparr>"

text \<open>
  \<^verbatim>\<open>tempfile.mkdtemp\<close> draws candidate names until one does not exist yet, creates
  that directory and returns its name; it raises when it runs out of candidates. The
  options only shape the candidate names, which are given here.
\<close>

fun mkdtemp_pick :: "(string \<rightharpoonup> node) \<Rightarrow> string list \<Rightarrow> (string \<times> string list) option" where
  "mkdtemp_pick f [] = None"
| "mkdtemp_pick f (n # ns) = (if f n = None then Some (n, ns) else mkdtemp_pick f ns)"

definition mkdtemp :: "(string \<times> string) list \<Rightarrow> world \<Rightarrow> (string, world) outcome" where
  "mkdtemp options w =
     (case mkdtemp_pick (fs w) (mkdtemp_names w) of
        None \<Rightarrow> (Inl OSError, w\<lparr>mkdtemp_names := []\<rparr>)
      | Some (n, ns) \<Rightarrow>
          (Inr n, emit (Mkdtemp n) (w\<lparr>fs := (fs w)(n \<mapsto> Directory), mkdtemp_names := ns\<rparr>)))"

text \<open>
  \<^verbatim>\<open>shutil.rmtree(path)\<close> removes the directory and everything below it; it raises when
  the path is not an existing directory.
\<close>

definition below :: "string \<Rightarrow> string \<Rightarrow> bool" where
  "below d p = (p = d \<or> prefix (d @ ''/'') p)"

definition rmtree :: "string \<Rightarrow> world \<Rightarrow> (unit, world) outcome" where
  "rmtree d w =
     (if fs w d = Some Directory
      then (Inr (), emit (Rmtree d) (w\<lparr>fs := (\<lambda>p. if below d p then None else fs w p)\<rparr>))
      else (Inl OSError, w))"

definition os_path_isfile :: "world \<Rightarrow> string \<Rightarrow> bool" where
  "os_path_isfile w p = (fs w p = Some RegularFile)"

definition os_path_join :: "string \<Rightarrow> string \<Rightarrow> string" where
  \<comment> \<open>\<^verbatim>\<open>posixpath.join\<close> of two components\<close>
  "os_path_join a b =
     (if take 1 b = ''/'' then b
      else if a = [] \<or> last a = CHR ''/'' then a @ b
      else a @ ''/'' @ b)"

definition os_path_dirname :: "string \<Rightarrow> string" where
  \<comment> \<open>\<^verbatim>\<open>posixpath.dirname\<close>: the part up to the last slash, without its trailing
      slashes unless it consists of slashes only\<close>
  "os_path_dirname p =
     (let head = rev (dropWhile (\<lambda>c. c \<noteq> CHR ''/'') (rev p));
          stripped = rev (dropWhile (\<lambda>c. c = CHR ''/'') (rev head))
      in if stripped = [] then head else stripped)"

text \<open>
  \<^verbatim>\<open>repr\<close> of a string, which the conversion \<^verbatim>\<open>%r\<close> applies: the string between single
  quotes, or between double quotes when it holds a single quote and no double quote;
  the quote used and the backslash are escaped with a backslash, tab, newline and
  carriage return are written \<^verbatim>\<open>\t\<close>, \<^verbatim>\<open>\n\<close>, \<^verbatim>\<open>\r\<close>, the other control characters
  \<^verbatim>\<open>\xNN\<close>. Characters beyond ASCII are left as they are.
\<close>

definition hex2 :: "char \<Rightarrow> string" where
  "hex2 c = [''0123456789abcdef'' ! (of_char c div 16),
             ''0123456789abcdef'' ! (of_char c mod 16)]"

definition repr_char :: "char \<Rightarrow> char \<Rightarrow> string" where
  "repr_char q c =
     (if c = q then [CHR 0x5C, c]
      else if c = CHR 0x5C then [CHR 0x5C, c]
      else if c = CHR 0x09 then [CHR 0x5C, CHR ''t'']
      else if c = CHR 0x0A then [CHR 0x5C, CHR ''n'']
      else if c = CHR 0x0D then [CHR 0x5C, CHR ''r'']
      else if (of_char c :: nat) < 32 then [CHR 0x5C, CHR ''x''] @ hex2 c
      else if c = CHR 0x7F then [CHR 0x5C, CHR ''x''] @ hex2 c
      else [c])"

definition py_repr :: "string \<Rightarrow> string" where
  "py_repr s =
     (let q = (if CHR 0x27 \<in> set s \<and> CHR 0x22 \<notin> set s then CHR 0x22 else CHR 0x27)
      in q # concat (map (repr_char q) s) @ [q])"

text \<open>\<^verbatim>\<open>str.split\<close> and \<^verbatim>\<open>str.join\<close> with a separator of one character.\<close>

fun str_split :: "char \<Rightarrow> string \<Rightarrow> string list" where
  "str_split c [] = [[]]"
| "str_split c (x # xs) =
     (if x = c then [] # str_split c xs
      else (x # hd (str_split c xs)) # tl (str_split c xs))"

fun str_join :: "char \<Rightarrow> string list \<Rightarrow> string" where
  "str_join c [] = []"
| "str_join c [x] = x"
| "str_join c (x # y # ys) = x @ c # str_join c (y # ys)"

section \<open>TemporaryDirectory\<close>

record TemporaryDirectory =
  mkdtemp_options :: "(string \<times> string) list"
  temporary_directory :: "string option"

definition TemporaryDirectory_init :: "(string \<times> string) list \<Rightarrow> TemporaryDirectory" where
  "TemporaryDirectory_init options = \<lparr>mkdtemp_options = options, temporary_directory = None\<rparr>"

text \<open>
  \<^verbatim>\<open>TemporaryDirectory.__enter__\<close> (lines 265-275) and \<^verbatim>\<open>__exit__\<close> (lines 277-284). In
  every class of the module the call through \<^verbatim>\<open>super\<close> made here reaches
  ContextManager. Both are written for every record that extends TemporaryDirectory, so
  that they apply to the instances of its subclasses.
\<close>

definition TemporaryDirectory_enter ::
  "'a TemporaryDirectory_scheme \<Rightarrow> world \<Rightarrow> (string, 'a TemporaryDirectory_scheme \<times> world) outcome"
  where
  "TemporaryDirectory_enter self w =
     (let self = ContextManager_enter self
      in case mkdtemp (mkdtemp_options self) w of
           (Inl e, w) \<Rightarrow> (Inl e, (self, w))
         | (Inr d, w) \<Rightarrow> (Inr d, (self\<lparr>temporary_directory := Some d\<rparr>, w)))"

definition TemporaryDirectory_exit ::
  "'a TemporaryDirectory_scheme \<Rightarrow> world \<Rightarrow> (unit, 'a TemporaryDirectory_scheme \<times> world) outcome"
  where
  "TemporaryDirectory_exit self w =
     (let self = ContextManager_exit self
      in case temporary_directory self of
           None \<Rightarrow> (Inr (), (self, w))
         | Some d \<Rightarrow>
             (case rmtree d w of
                (Inl e, w) \<Rightarrow> (Inl e, (self, w))
              | (Inr u, w) \<Rightarrow> (Inr (), (self\<lparr>temporary_directory := None\<rparr>, w))))"

section \<open>CustomSearchPath\<close>

text \<open>
  \<^verbatim>\<open>class CustomSearchPath(PatchedItem, TemporaryDirectory)\<close>: the instance has the fields
  of both. Its method resolution order is CustomSearchPath, PatchedItem,
  TemporaryDirectory, ContextManager, so on such an instance the call
  \<^verbatim>\<open>super(PatchedItem, self)\<close> inside the methods of PatchedItem reaches the methods of
  TemporaryDirectory. The object patched is \<^verbatim>\<open>os.environ\<close>.
\<close>

record CustomSearchPath = TemporaryDirectory +
  isolated_search_path :: bool
  patched_item :: "(string, string) patch"

definition current_search_path :: "world \<Rightarrow> string" where
  \<comment> \<open>\<^verbatim>\<open>os.environ.get('PATH', os.defpath)\<close>\<close>
  "current_search_path w = (case environ w ''PATH'' of None \<Rightarrow> defpath w | Some p \<Rightarrow> p)"

definition CustomSearchPath_init :: "bool \<Rightarrow> world \<Rightarrow> CustomSearchPath" where
  "CustomSearchPath_init isolated w =
     \<lparr>mkdtemp_options = [], temporary_directory = None,
      isolated_search_path = isolated,
      patched_item = patch_init ''PATH'' (current_search_path w)\<rparr>"

text \<open>\<^verbatim>\<open>PatchedItem.__enter__\<close> and \<^verbatim>\<open>PatchedItem.__exit__\<close> on such an instance.\<close>

definition CustomSearchPath_PatchedItem_enter ::
  "'a CustomSearchPath_scheme \<Rightarrow> world \<Rightarrow> (unit, 'a CustomSearchPath_scheme \<times> world) outcome"
  where
  "CustomSearchPath_PatchedItem_enter self w =
     (case TemporaryDirectory_enter self w of
        (Inl e, s) \<Rightarrow> (Inl e, s)
      | (Inr d, (self, w)) \<Rightarrow>
          (case PatchedItem_enter_body (patched_item self) (environ w) of
             (p, env) \<Rightarrow>
               (Inr (), (self\<lparr>patched_item := p\<rparr>,
                         emit (ItemPatched (to_patch p) (patched_value p)) (w\<lparr>environ := env\<rparr>)))))"

definition CustomSearchPath_PatchedItem_exit ::
  "'a CustomSearchPath_scheme \<Rightarrow> world \<Rightarrow> (unit, 'a CustomSearchPath_scheme \<times> world) outcome"
  where
  "CustomSearchPath_PatchedItem_exit self w =
     (case TemporaryDirectory_exit self w of
        (Inl e, s) \<Rightarrow> (Inl e, s)
      | (Inr u, (self, w)) \<Rightarrow>
          (case PatchedItem_exit_body (patched_item self) (environ w) of
             (Inl e, (p, env)) \<Rightarrow> (Inl e, (self\<lparr>patched_item := p\<rparr>, w\<lparr>environ := env\<rparr>))
           | (Inr u, (p, env)) \<Rightarrow>
               (Inr (), (self\<lparr>patched_item := p\<rparr>,
                         emit (ItemRestored (to_patch p) (original_value p))
                           (w\<lparr>environ := env\<rparr>)))))"

text \<open>\<^verbatim>\<open>CustomSearchPath.__enter__\<close> (lines 310-329) and \<^verbatim>\<open>__exit__\<close> (lines 331-333).\<close>

definition CustomSearchPath_enter ::
  "'a CustomSearchPath_scheme \<Rightarrow> world \<Rightarrow> (string, 'a CustomSearchPath_scheme \<times> world) outcome"
  where
  "CustomSearchPath_enter self w =
     (case TemporaryDirectory_enter self w of
        (Inl e, s) \<Rightarrow> (Inl e, s)
      | (Inr directory, (self, w)) \<Rightarrow>
          (let self = self\<lparr>patched_item := (patched_item self)\<lparr>patched_value :=
                 (if isolated_search_path self then directory
                  else str_join (pathsep w)
                         ([directory] @ str_split (pathsep w) (current_search_path w)))\<rparr>\<rparr>
           in case CustomSearchPath_PatchedItem_enter self w of
                (Inl e, s) \<Rightarrow> (Inl e, s)
              | (Inr u, s) \<Rightarrow> (Inr directory, s)))"

definition CustomSearchPath_exit ::
  "'a CustomSearchPath_scheme \<Rightarrow> world \<Rightarrow> (unit, 'a CustomSearchPath_scheme \<times> world) outcome"
  where
  "CustomSearchPath_exit self w = CustomSearchPath_PatchedItem_exit self w"

section \<open>MockedProgram\<close>

record MockedProgram = CustomSearchPath +
  program_name :: string
  program_returncode :: int
  program_signal_file :: "string option"

definition MockedProgram_init :: "string \<Rightarrow> int \<Rightarrow> world \<Rightarrow> MockedProgram" where
  "MockedProgram_init name returncode w =
     \<lparr>mkdtemp_options = [], temporary_directory = None,
      isolated_search_path = False,
      patched_item = patch_init ''PATH'' (current_search_path w),
      program_name = name, program_returncode = returncode, program_signal_file = None\<rparr>"

definition random_string :: "world \<Rightarrow> string \<times> world" where
  \<comment> \<open>Modelled from the spec: \<^verbatim>\<open>humanfriendly.text.random_string\<close> is not part of the
      sources at hand; the spec asks of it a sufficiently unique short string, which is
      drawn here from the supply of the world.\<close>
  "random_string w =
     (case random_strings w of
        [] \<Rightarrow> ([], w)
      | r # rs \<Rightarrow> (r, w\<lparr>random_strings := rs\<rparr>))"

text \<open>
  Lines 374-378 open the file for writing, write the script and make it executable. The
  file system here keeps which paths exist and of what kind, so what remains of these
  lines is that the path is a regular file afterwards. \<^verbatim>\<open>open\<close> raises when the path
  is empty, ends in a slash or is a directory, and when the directory that is to hold
  the file (the \<^verbatim>\<open>dirname\<close> of the path, unless that is empty) is not there. Paths
  are taken as they are written.
\<close>

definition write_script :: "string \<Rightarrow> world \<Rightarrow> (unit, world) outcome" where
  "write_script pathname w =
     (if pathname = [] then (Inl OSError, w)
      else if last pathname = CHR ''/'' then (Inl OSError, w)
      else if fs w pathname = Some Directory then (Inl OSError, w)
      else if os_path_dirname pathname = []
        then (Inr (), w\<lparr>fs := (fs w)(pathname \<mapsto> RegularFile)\<rparr>)
      else if fs w (os_path_dirname pathname) = Some Directory
        then (Inr (), w\<lparr>fs := (fs w)(pathname \<mapsto> RegularFile)\<rparr>)
      else (Inl OSError, w))"

text \<open>\<^verbatim>\<open>MockedProgram.__enter__\<close> (lines 364-379).\<close>

definition MockedProgram_enter ::
  "'a MockedProgram_scheme \<Rightarrow> world \<Rightarrow> (string, 'a MockedProgram_scheme \<times> world) outcome"
  where
  "MockedProgram_enter self w =
     (case CustomSearchPath_enter self w of
        (Inl e, s) \<Rightarrow> (Inl e, s)
      | (Inr directory, (self, w)) \<Rightarrow>
          (case random_string w of
             (r, w) \<Rightarrow>
               (let self = self\<lparr>program_signal_file :=
                             Some (os_path_join directory (''program-was-run-'' @ r))\<rparr>;
                    pathname = os_path_join directory (program_name self)
                in case write_script pathname w of
                     (Inl e, w) \<Rightarrow> (Inl e, (self, w))
                   | (Inr u, w) \<Rightarrow> (Inr directory, (self, w)))))"

text \<open>
  The \<^verbatim>\<open>assert\<close> of lines 389-390: the signal file is set, not empty, and a regular
  file. The message holds the \<^verbatim>\<open>repr\<close> of the program name.
\<close>

definition assert_program_was_run :: "'a MockedProgram_scheme \<Rightarrow> world \<Rightarrow> exn + unit" where
  "assert_program_was_run self w =
     (if (case program_signal_file self of
            None \<Rightarrow> False
          | Some f \<Rightarrow> f \<noteq> [] \<and> os_path_isfile w f)
      then Inr ()
      else Inl (AssertionError
                  (''It looks like '' @ py_repr (program_name self) @ '' was never run!'')))"

text \<open>
  \<^verbatim>\<open>MockedProgram.__exit__\<close> (lines 381-392). The \<^verbatim>\<open>finally\<close> clause ends in a
  \<^verbatim>\<open>return\<close>. In Python a \<^verbatim>\<open>return\<close> inside \<^verbatim>\<open>finally\<close> discards the exception that
  is pending from the \<^verbatim>\<open>try\<close> block: the method ends with the value (or the exception)
  of the expression returned.
\<close>

definition MockedProgram_exit ::
  "'a MockedProgram_scheme \<Rightarrow> world \<Rightarrow> (unit, 'a MockedProgram_scheme \<times> world) outcome"
  where
  "MockedProgram_exit self w =
     (case assert_program_was_run self w of
        Inl pending \<Rightarrow> CustomSearchPath_exit self w
      | Inr u \<Rightarrow> CustomSearchPath_exit self w)"

section \<open>CaptureOutput\<close>

record CaptureOutput =
  stdin :: pyval
  stdout :: pyval
  stderr :: pyval
  patched_attributes :: "(string, pyval) patch list"

definition StringIO :: "string \<Rightarrow> world \<Rightarrow> pyval \<times> world" where
  \<comment> \<open>Modelled from the spec: \<^verbatim>\<open>humanfriendly.compat.StringIO\<close> is not part of the sources
      at hand; the spec asks for a fresh in-memory stream buffer holding the text
      given.\<close>
  "StringIO text w = (PStringIO (length (stringio w)), w\<lparr>stringio := stringio w @ [text]\<rparr>)"

definition CaptureOutput_init :: "bool \<Rightarrow> string \<Rightarrow> world \<Rightarrow> CaptureOutput \<times> world" where
  "CaptureOutput_init merged input w =
     (case StringIO input w of
        (i, w) \<Rightarrow>
          (case StringIO [] w of
             (out, w) \<Rightarrow>
               (case (if merged then (out, w) else StringIO [] w) of
                  (err, w) \<Rightarrow>
                    (\<lparr>stdin = i, stdout = out, stderr = err,
                      patched_attributes =
                        [patch_init ''stdin'' i, patch_init ''stdout'' out,
                         patch_init ''stderr'' err]\<rparr>, w))))"

text \<open>A PatchedAttribute whose object is the module \<^verbatim>\<open>sys\<close>.\<close>

definition sys_PatchedAttribute_enter ::
  "(string, pyval) patch \<Rightarrow> world \<Rightarrow> (string, pyval) patch \<times> world" where
  "sys_PatchedAttribute_enter c w =
     (case PatchedAttribute_enter c (sys w) of
        (c, obj) \<Rightarrow> (c, emit (AttrPatched (to_patch c)) (w\<lparr>sys := obj\<rparr>)))"

definition sys_PatchedAttribute_exit ::
  "(string, pyval) patch \<Rightarrow> world \<Rightarrow> (unit, (string, pyval) patch \<times> world) outcome" where
  "sys_PatchedAttribute_exit c w =
     (case PatchedAttribute_exit c (sys w) of
        (Inl e, (c, obj)) \<Rightarrow> (Inl e, (c, w\<lparr>sys := obj\<rparr>))
      | (Inr u, (c, obj)) \<Rightarrow> (Inr (), (c, emit (AttrRestored (to_patch c)) (w\<lparr>sys := obj\<rparr>))))"

text \<open>
  The loops \<^verbatim>\<open>for context in self.patched_attributes\<close> of \<^verbatim>\<open>__enter__\<close> (lines 428-429)
  and of \<^verbatim>\<open>__exit__\<close> (lines 435-436). An exception leaves the loop.
\<close>

fun enter_each ::
  "(string, pyval) patch list \<Rightarrow> world \<Rightarrow> (string, pyval) patch list \<times> world" where
  "enter_each [] w = ([], w)"
| "enter_each (c # cs) w =
     (case sys_PatchedAttribute_enter c w of
        (c, w) \<Rightarrow> (case enter_each cs w of (cs, w) \<Rightarrow> (c # cs, w)))"

fun exit_each ::
  "(string, pyval) patch list \<Rightarrow> world \<Rightarrow> (unit, (string, pyval) patch list \<times> world) outcome"
  where
  "exit_each [] w = (Inr (), ([], w))"
| "exit_each (c # cs) w =
     (case sys_PatchedAttribute_exit c w of
        (Inl e, (c, w)) \<Rightarrow> (Inl e, (c # cs, w))
      | (Inr u, (c, w)) \<Rightarrow> (case exit_each cs w of (r, (cs, w)) \<Rightarrow> (r, (c # cs, w))))"

definition CaptureOutput_enter :: "CaptureOutput \<Rightarrow> world \<Rightarrow> CaptureOutput \<times> world" where
  "CaptureOutput_enter self w =
     (let self = ContextManager_enter self
      in case enter_each (patched_attributes self) w of
           (cs, w) \<Rightarrow> (self\<lparr>patched_attributes := cs\<rparr>, w))"

definition CaptureOutput_exit ::
  "CaptureOutput \<Rightarrow> world \<Rightarrow> (unit, CaptureOutput \<times> world) outcome" where
  "CaptureOutput_exit self w =
     (let self = ContextManager_exit self
      in case exit_each (patched_attributes self) w of
           (r, (cs, w)) \<Rightarrow> (r, (self\<lparr>patched_attributes := cs\<rparr>, w)))"

definition CaptureOutput_getvalue :: "CaptureOutput \<Rightarrow> world \<Rightarrow> exn + string" where
  "CaptureOutput_getvalue self w =
     (case stdout self of
        PStringIO i \<Rightarrow> (if i < length (stringio w) then Inr (stringio w ! i) else Inl AttributeError)
      | _ \<Rightarrow> Inl AttributeError)"

section \<open>run\_cli\<close>

text \<open>
  The \<^verbatim>\<open>with\<close> statement runs \<^verbatim>\<open>__exit__\<close> when its body has ended, by a
  \<^verbatim>\<open>return\<close> or by an exception. No \<^verbatim>\<open>__exit__\<close> of this module returns a true value,
  so the outcome of the body stays, unless \<^verbatim>\<open>__exit__\<close> raises itself.
\<close>

definition with_exit :: "exn + 'a \<Rightarrow> (unit, 's) outcome \<Rightarrow> ('a, 's) outcome" where
  "with_exit r ex = (case ex of (Inl e, s) \<Rightarrow> (Inl e, s) | (Inr u, s) \<Rightarrow> (r, s))"

record cli_options =
  opt_input :: string
  opt_merged :: bool
  opt_program_name :: "pyval option"

text \<open>
  Lines 128-136, inside the two \<^verbatim>\<open>with\<close> statements: the entry point is a callable
  without arguments that acts on the world and returns or raises.
\<close>

definition call_entry_point ::
  "(world \<Rightarrow> (pyval, world) outcome) \<Rightarrow> CaptureOutput \<Rightarrow> world \<Rightarrow> (pyval \<times> string, world) outcome"
  where
  "call_entry_point entry_point output w =
     (case entry_point w of
        (Inl (SystemExit code), w) \<Rightarrow>
          (case CaptureOutput_getvalue output w of
             Inl e \<Rightarrow> (Inl e, w)
           | Inr text \<Rightarrow> (Inr (code, text), w))
      | (Inl e, w) \<Rightarrow> (Inl e, w)
      | (Inr v, w) \<Rightarrow>
          (case CaptureOutput_getvalue output w of
             Inl e \<Rightarrow> (Inl e, w)
           | Inr text \<Rightarrow> (Inr (PInt 0, text), w)))"

text \<open>\<^verbatim>\<open>run_cli\<close> (lines 100-136).\<close>

definition run_cli ::
  "(world \<Rightarrow> (pyval, world) outcome) \<Rightarrow> string list \<Rightarrow> cli_options \<Rightarrow> world
     \<Rightarrow> (pyval \<times> string, world) outcome" where
  "run_cli entry_point arguments options w =
     (case sys w ''executable'' of
        None \<Rightarrow> (Inl AttributeError, w)
      | Some executable \<Rightarrow>
          (let program_name = (case opt_program_name options of
                                 None \<Rightarrow> executable | Some n \<Rightarrow> n)
           in case CaptureOutput_init (opt_merged options) (opt_input options) w of
                (output, w) \<Rightarrow>
                  (case CaptureOutput_enter output w of
                     (output, w) \<Rightarrow>
                       (let arguments = program_name # map PStr arguments
                        in case sys_PatchedAttribute_enter
                                  (patch_init ''argv'' (PList arguments)) w of
                             (argv, w) \<Rightarrow>
                               (case call_entry_point entry_point output w of
                                  (r, w) \<Rightarrow>
                                    (case with_exit r (sys_PatchedAttribute_exit argv w) of
                                       (r, (argv, w)) \<Rightarrow>
                                         (case with_exit r (CaptureOutput_exit output w) of
                                            (r, (output, w)) \<Rightarrow> (r, w))))))))"

section \<open>retry\<close>

definition time_sleep :: "real \<Rightarrow> world \<Rightarrow> world" where
  "time_sleep pause w = emit (Sleep pause) (w\<lparr>now := now w + pause\<rparr>)"

definition next_pause :: "real \<Rightarrow> real" where
  \<comment> \<open>lines 96-97\<close>
  "next_pause pause = (if pause < 1 then pause * 2 else pause)"

text \<open>
  The loop of lines 84-97. \<open>exc_type\<close> tells which exceptions are instances of the class
  to retry; \<open>timeout\<close> is the deadline. The loop need not end, so its result is an
  option.
\<close>

partial_function (option) retry_loop ::
  "(world \<Rightarrow> (pyval, world) outcome) \<Rightarrow> (exn \<Rightarrow> bool) \<Rightarrow> real \<Rightarrow> real \<Rightarrow> world
     \<Rightarrow> (pyval, world) outcome option" where
  "retry_loop func exc_type timeout pause w =
     (case func w of
        (Inr result, w) \<Rightarrow>
          (if result \<noteq> PBool False then Some (Inr result, w)
           else if now w > timeout then Some (Inl CallableTimedOut, w)
           else retry_loop func exc_type timeout (next_pause pause) (time_sleep pause w))
      | (Inl e, w) \<Rightarrow>
          (if exc_type e
           then (if now w > timeout then Some (Inl e, w)
                 else retry_loop func exc_type timeout (next_pause pause) (time_sleep pause w))
           else Some (Inl e, w)))"

definition retry ::
  "(world \<Rightarrow> (pyval, world) outcome) \<Rightarrow> real \<Rightarrow> (exn \<Rightarrow> bool) \<Rightarrow> world
     \<Rightarrow> (pyval, world) outcome option" where
  "retry func timeout exc_type w = retry_loop func exc_type (timeout + now w) (1 / 10) w"

definition is_AssertionError :: "exn \<Rightarrow> bool" where
  "is_AssertionError e = (case e of AssertionError m \<Rightarrow> True | _ \<Rightarrow> False)"

text \<open>
  The run of \<^verbatim>\<open>retry\<close> in the words of the spec, to compare the loop with: an attempt
  is retried when the operation returns \<^verbatim>\<open>False\<close> or raises an exception of the retried
  kind and the deadline has not passed after it; \<open>attempt_world func pause n w\<close> is
  the world in which the attempt that follows \<open>n\<close> earlier attempts starts, when the
  first attempt starts in \<open>w\<close> with \<open>pause\<close> as the next pause: after each attempt the
  pause is slept and then adjusted.
\<close>

fun attempt_world :: "(world \<Rightarrow> (pyval, world) outcome) \<Rightarrow> real \<Rightarrow> nat \<Rightarrow> world \<Rightarrow> world" where
  "attempt_world func pause 0 w = w"
| "attempt_world func pause (Suc n) w =
     attempt_world func (next_pause pause) n (time_sleep pause (snd (func w)))"

definition retried :: "(world \<Rightarrow> (pyval, world) outcome) \<Rightarrow> (exn \<Rightarrow> bool) \<Rightarrow> real \<Rightarrow> world \<Rightarrow> bool" where
  "retried func exc_type deadline u =
     (case func u of
        (Inr v, u') \<Rightarrow> v = PBool False \<and> \<not> deadline < now u'
      | (Inl e, u') \<Rightarrow> exc_type e \<and> \<not> deadline < now u')"

section \<open>An example world\<close>

text \<open>
  A POSIX process whose search path is \<^verbatim>\<open>/bin:/usr/bin\<close>, with an empty file system, the
  three standard streams and the argument vector in \<^verbatim>\<open>sys\<close>, and \<^verbatim>\<open>/tmp/a\<close>,
  \<^verbatim>\<open>/tmp/b\<close> as the next names of temporary directories.
\<close>

definition example_world :: world where
  "example_world =
     \<lparr>environ = [''PATH'' \<mapsto> ''/bin:/usr/bin''],
      fs = Map.empty,
      sys = [''stdin'' \<mapsto> PStr ''<stdin>'', ''stdout'' \<mapsto> PStr ''<stdout>'',
             ''stderr'' \<mapsto> PStr ''<stderr>'', ''argv'' \<mapsto> PList [PStr ''prog''],
             ''executable'' \<mapsto> PStr ''/usr/bin/python''],
      stringio = [],
      now = 0,
      pathsep = CHR '':'',
      defpath = ''/bin:/usr/bin'',
      mkdtemp_names = [''/tmp/a'', ''/tmp/b''],
      random_strings = [''xyz''],
      trace = []\<rparr>"

text \<open>
  The options of a call of \<^verbatim>\<open>run_cli\<close> without keyword arguments, and what an entry
  point does to the world when it writes a text to \<^verbatim>\<open>sys.stdout\<close>.
\<close>

definition example_options :: cli_options where
  "example_options = \<lparr>opt_input = [], opt_merged = False, opt_program_name = None\<rparr>"

definition sys_stdout_write :: "string \<Rightarrow> world \<Rightarrow> world" where
  "sys_stdout_write text w =
     (case sys w ''stdout'' of
        Some (PStringIO i) \<Rightarrow> w\<lparr>stringio := (stringio w)[i := stringio w ! i @ text]\<rparr>
      | _ \<Rightarrow> w)"

section \<open>Restoring a patched attribute or item\<close>

lemma PatchedAttribute_enter_original:
  "original_value (fst (PatchedAttribute_enter self obj)) =
     (case obj (to_patch self) of None \<Rightarrow> NOTHING | Some v \<Rightarrow> Value v)"
  by (simp add: PatchedAttribute_enter_def ContextManager_enter_def getattr_default_def Let_def)

lemma PatchedItem_enter_original:
  "original_value (fst (PatchedItem_enter self obj)) =
     (case obj (to_patch self) of None \<Rightarrow> NOTHING | Some v \<Rightarrow> Value v)"
  by (simp add: PatchedItem_enter_def PatchedItem_enter_body_def ContextManager_enter_def
      getitem_def Let_def split: option.split)

lemma PatchedAttribute_roundtrip:
  "snd (PatchedAttribute_exit (fst (PatchedAttribute_enter self obj))
          (snd (PatchedAttribute_enter self obj))) = (fst (PatchedAttribute_enter self obj), obj)
   \<and> fst (PatchedAttribute_exit (fst (PatchedAttribute_enter self obj))
          (snd (PatchedAttribute_enter self obj))) = Inr ()"
proof (cases "obj (to_patch self)")
  case None
  then have "(obj(to_patch self \<mapsto> patched_value self))(to_patch self := None) = obj"
    by (simp add: fun_upd_idem)
  with None show ?thesis
    by (simp add: PatchedAttribute_enter_def PatchedAttribute_exit_def ContextManager_enter_def
        ContextManager_exit_def getattr_default_def setattr_def delattr_def Let_def)
next
  case (Some v)
  then have "(obj(to_patch self \<mapsto> patched_value self))(to_patch self \<mapsto> v) = obj"
    by (simp add: fun_upd_idem)
  with Some show ?thesis
    by (simp add: PatchedAttribute_enter_def PatchedAttribute_exit_def ContextManager_enter_def
        ContextManager_exit_def getattr_default_def setattr_def delattr_def Let_def)
qed

lemma PatchedItem_roundtrip:
  "snd (PatchedItem_exit (fst (PatchedItem_enter self obj))
          (snd (PatchedItem_enter self obj))) = (fst (PatchedItem_enter self obj), obj)
   \<and> fst (PatchedItem_exit (fst (PatchedItem_enter self obj))
          (snd (PatchedItem_enter self obj))) = Inr ()"
proof (cases "obj (to_patch self)")
  case None
  then have "(obj(to_patch self \<mapsto> patched_value self))(to_patch self := None) = obj"
    by (simp add: fun_upd_idem)
  with None show ?thesis
    by (simp add: PatchedItem_enter_def PatchedItem_exit_def PatchedItem_enter_body_def
        PatchedItem_exit_body_def ContextManager_enter_def ContextManager_exit_def
        getitem_def setitem_def delitem_def Let_def)
next
  case (Some v)
  then have "(obj(to_patch self \<mapsto> patched_value self))(to_patch self \<mapsto> v) = obj"
    by (simp add: fun_upd_idem)
  with Some show ?thesis
    by (simp add: PatchedItem_enter_def PatchedItem_exit_def PatchedItem_enter_body_def
        PatchedItem_exit_body_def ContextManager_enter_def ContextManager_exit_def
        getitem_def setitem_def delitem_def Let_def)
qed

text \<open>
  Claim C1. For every object, attribute name and replacement value (and for every mapping,
  key and replacement value), entering a PatchedAttribute (a PatchedItem) and then leaving
  it does not raise and gives back the object exactly as it was: a name that had the
  value \<open>v\<close>, whatever \<open>v\<close> is, has it again, and a name that was absent is absent
  again, not present with a null value. What enter records in \<^verbatim>\<open>original_value\<close> is
  \<open>NOTHING\<close> exactly when the name was absent, and \<open>NOTHING\<close> differs from every
  recorded value.
\<close>

theorem patched_scope_restores_target:
  fixes obj :: "string \<rightharpoonup> 'v" and m :: "'k \<rightharpoonup> 'w"
  shows "PatchedAttribute_exit (fst (PatchedAttribute_enter (patch_init name v) obj))
             (snd (PatchedAttribute_enter (patch_init name v) obj))
           = (Inr (), (fst (PatchedAttribute_enter (patch_init name v) obj), obj))
     \<and> PatchedItem_exit (fst (PatchedItem_enter (patch_init key x) m))
             (snd (PatchedItem_enter (patch_init key x) m))
           = (Inr (), (fst (PatchedItem_enter (patch_init key x) m), m))
     \<and> original_value (fst (PatchedAttribute_enter (patch_init name v) obj))
           = (case obj name of None \<Rightarrow> NOTHING | Some u \<Rightarrow> Value u)
     \<and> original_value (fst (PatchedItem_enter (patch_init key x) m))
           = (case m key of None \<Rightarrow> NOTHING | Some u \<Rightarrow> Value u)
     \<and> (\<forall>u::'v. NOTHING \<noteq> Value u) \<and> (\<forall>u::'w. NOTHING \<noteq> Value u)"
proof -
  have a: "to_patch (patch_init name v) = name" "to_patch (patch_init key x) = key"
    by (simp_all add: patch_init_def)
  show ?thesis
    using PatchedAttribute_roundtrip [of "patch_init name v" obj]
      PatchedItem_roundtrip [of "patch_init key x" m]
      PatchedAttribute_enter_original [of "patch_init name v" obj]
      PatchedItem_enter_original [of "patch_init key x" m]
    by (simp add: a prod_eq_iff)
qed

text \<open>
  An instance of the theorem: the attribute \<^verbatim>\<open>a\<close> holds the falsy value \<^verbatim>\<open>None\<close> and the
  key \<^verbatim>\<open>k\<close> is missing; after the scope the attribute is \<^verbatim>\<open>None\<close> again and the key
  is missing again.
\<close>

theorem patched_scope_restores_target_witness:
  "PatchedAttribute_exit
       (fst (PatchedAttribute_enter (patch_init ''a'' (PInt 1)) [''a'' \<mapsto> PNone]))
       (snd (PatchedAttribute_enter (patch_init ''a'' (PInt 1)) [''a'' \<mapsto> PNone]))
     = (Inr (), (\<lparr>to_patch = ''a'', patched_value = PInt 1, original_value = Value PNone\<rparr>,
                 [''a'' \<mapsto> PNone]))
   \<and> PatchedItem_exit
       (fst (PatchedItem_enter (patch_init ''k'' (PInt 1)) (Map.empty :: string \<rightharpoonup> pyval)))
       (snd (PatchedItem_enter (patch_init ''k'' (PInt 1)) Map.empty))
     = (Inr (), (\<lparr>to_patch = ''k'', patched_value = PInt 1, original_value = NOTHING\<rparr>,
                 Map.empty))"
proof -
  have e1: "fst (PatchedAttribute_enter (patch_init ''a'' (PInt 1)) [''a'' \<mapsto> PNone])
      = \<lparr>to_patch = ''a'', patched_value = PInt 1, original_value = Value PNone\<rparr>"
    by (simp add: PatchedAttribute_enter_def ContextManager_enter_def getattr_default_def
        patch_init_def Let_def)
  have e2: "fst (PatchedItem_enter (patch_init ''k'' (PInt 1)) (Map.empty :: string \<rightharpoonup> pyval))
      = \<lparr>to_patch = ''k'', patched_value = PInt 1, original_value = NOTHING\<rparr>"
    by (simp add: PatchedItem_enter_def PatchedItem_enter_body_def ContextManager_enter_def
        getitem_def patch_init_def Let_def)
  show ?thesis
    using patched_scope_restores_target
      [of "''a''" "PInt 1" "[''a'' \<mapsto> PNone]" "''k''" "PInt 1" "Map.empty :: string \<rightharpoonup> pyval"]
    by (simp only: e1 e2)
qed


section \<open>The search path while a CustomSearchPath is active\<close>

lemma str_split_nonempty: "str_split c s \<noteq> []"
  by (induction s) auto

lemma str_join_str_split: "str_join c (str_split c s) = s"
proof (induction s)
  case Nil
  show ?case by simp
next
  case (Cons x xs)
  obtain y ys where s: "str_split c xs = y # ys"
    using str_split_nonempty [of c xs] by (cases "str_split c xs") auto
  with Cons show ?case
    by (cases ys) auto
qed

lemma str_join_prepend: "str_join c ([d] @ str_split c s) = d @ c # s"
proof -
  obtain y ys where s: "str_split c s = y # ys"
    using str_split_nonempty [of c s] by (cases "str_split c s") auto
  have "str_join c (d # y # ys) = d @ c # str_join c (y # ys)" by simp
  with s show ?thesis by (simp add: str_join_str_split [of c s, unfolded s])
qed

lemma mkdtemp_pick_fresh: "mkdtemp_pick f ns = Some (d, rest) \<Longrightarrow> f d = None"
  by (induction ns) (auto split: if_splits)

lemma mkdtemp_Inr:
  assumes "mkdtemp opts w = (Inr d, w1)"
  shows "fs w d = None"
    and "\<exists>ns. w1 = w\<lparr>fs := (fs w)(d \<mapsto> Directory), mkdtemp_names := ns,
                     trace := trace w @ [Mkdtemp d]\<rparr>"
  using assms
  by (auto simp: mkdtemp_def emit_def split: option.splits dest: mkdtemp_pick_fresh)

lemma TemporaryDirectory_enter_Inr:
  assumes "TemporaryDirectory_enter self w = (Inr d, (self1, w1))"
  shows "self1 = self\<lparr>temporary_directory := Some d\<rparr>"
    and "mkdtemp (mkdtemp_options self) w = (Inr d, w1)"
  using assms
  by (auto simp: TemporaryDirectory_enter_def ContextManager_enter_def Let_def
      split: prod.splits sum.splits)

lemma PatchedItem_enter_body_eq:
  "PatchedItem_enter_body p env =
     (p\<lparr>original_value := (case env (to_patch p) of None \<Rightarrow> NOTHING | Some v \<Rightarrow> Value v)\<rparr>,
      env(to_patch p \<mapsto> patched_value p))"
  by (simp add: PatchedItem_enter_body_def getitem_def setitem_def Let_def split: option.splits)

lemma CustomSearchPath_enter_Inr:
  assumes "CustomSearchPath_enter self w = (Inr directory, (self1, w1))"
  shows "\<exists>d2 ns v. v = (if isolated_search_path self then directory
                          else directory @ pathsep w # current_search_path w)
       \<and> fs w directory = None \<and> d2 \<noteq> directory \<and> fs w d2 = None
       \<and> self1 = self\<lparr>temporary_directory := Some d2,
            patched_item := (patched_item self)\<lparr>
              patched_value := v,
              original_value := (case environ w (to_patch (patched_item self)) of
                                   None \<Rightarrow> NOTHING | Some u \<Rightarrow> Value u)\<rparr>\<rparr>
       \<and> w1 = w\<lparr>environ := (environ w)(to_patch (patched_item self) \<mapsto> v),
                 fs := (fs w)(directory \<mapsto> Directory, d2 \<mapsto> Directory),
                 mkdtemp_names := ns,
                 trace := trace w @ [Mkdtemp directory, Mkdtemp d2,
                   ItemPatched (to_patch (patched_item self)) v]\<rparr>"
proof -
  from assms obtain sa wa where t1: "TemporaryDirectory_enter self w = (Inr directory, (sa, wa))"
    by (auto simp: CustomSearchPath_enter_def split: prod.splits sum.splits)
  have sa: "sa = self\<lparr>temporary_directory := Some directory\<rparr>"
    and m1: "mkdtemp (mkdtemp_options self) w = (Inr directory, wa)"
    using TemporaryDirectory_enter_Inr [OF t1] by simp_all
  from mkdtemp_Inr [OF m1] obtain ns1 where f1: "fs w directory = None"
    and wa: "wa = w\<lparr>fs := (fs w)(directory \<mapsto> Directory), mkdtemp_names := ns1,
                     trace := trace w @ [Mkdtemp directory]\<rparr>"
    by blast
  define v where "v = (if isolated_search_path self then directory
                       else directory @ pathsep w # current_search_path w)"
  define sb where "sb = sa\<lparr>patched_item := (patched_item sa)\<lparr>patched_value := v\<rparr>\<rparr>"
  have cur: "current_search_path wa = current_search_path w" "pathsep wa = pathsep w"
    by (simp_all add: wa current_search_path_def split: option.splits)
  have v': "(if isolated_search_path sa then directory
             else str_join (pathsep wa) ([directory] @ str_split (pathsep wa) (current_search_path wa))) = v"
    by (simp add: v_def cur str_join_prepend sa del: append.simps)
  from assms t1 have e2: "CustomSearchPath_PatchedItem_enter sb wa = (Inr (), (self1, w1))"
    unfolding CustomSearchPath_enter_def
    by (simp add: Let_def v' sb_def split: prod.splits sum.splits)
  then obtain d2 sc wb where t2: "TemporaryDirectory_enter sb wa = (Inr d2, (sc, wb))"
    by (auto simp: CustomSearchPath_PatchedItem_enter_def split: prod.splits sum.splits)
  have sc: "sc = sb\<lparr>temporary_directory := Some d2\<rparr>"
    and m2: "mkdtemp (mkdtemp_options sb) wa = (Inr d2, wb)"
    using TemporaryDirectory_enter_Inr [OF t2] by simp_all
  from mkdtemp_Inr [OF m2] obtain ns2 where f2: "fs wa d2 = None"
    and wb: "wb = wa\<lparr>fs := (fs wa)(d2 \<mapsto> Directory), mkdtemp_names := ns2,
                     trace := trace wa @ [Mkdtemp d2]\<rparr>"
    by blast
  from f2 have d: "d2 \<noteq> directory" "fs w d2 = None"
    by (auto simp: wa split: if_splits)
  from e2 t2 have r: "self1 = sc\<lparr>patched_item := fst (PatchedItem_enter_body (patched_item sc) (environ wb))\<rparr>"
     "w1 = emit (ItemPatched (to_patch (patched_item sc)) (patched_value (patched_item sc)))
             (wb\<lparr>environ := snd (PatchedItem_enter_body (patched_item sc) (environ wb))\<rparr>)"
    by (auto simp: CustomSearchPath_PatchedItem_enter_def PatchedItem_enter_body_eq
        split: prod.splits sum.splits)
  show ?thesis
    apply (rule exI [of _ d2], rule exI [of _ ns2], rule exI [of _ v])
    apply (simp add: r f1 d PatchedItem_enter_body_eq sc sb_def sa wb wa emit_def)
    apply (simp add: v_def)
    done
qed

lemma rmtree_Directory:
  "fs w d = Some Directory \<Longrightarrow>
     rmtree d w = (Inr (), w\<lparr>fs := (\<lambda>p. if below d p then None else fs w p),
                              trace := trace w @ [Rmtree d]\<rparr>)"
  by (simp add: rmtree_def emit_def)

lemma rmtree_raises: "fs w d \<noteq> Some Directory \<Longrightarrow> rmtree d w = (Inl OSError, w)"
  by (simp add: rmtree_def)

lemma TemporaryDirectory_exit_Directory:
  "temporary_directory self = Some d \<Longrightarrow> fs w d = Some Directory \<Longrightarrow>
     TemporaryDirectory_exit self w =
       (Inr (), (self\<lparr>temporary_directory := None\<rparr>,
                 w\<lparr>fs := (\<lambda>p. if below d p then None else fs w p),
                   trace := trace w @ [Rmtree d]\<rparr>))"
  by (simp add: TemporaryDirectory_exit_def ContextManager_exit_def rmtree_Directory)

lemma TemporaryDirectory_exit_raises:
  "temporary_directory self = Some d \<Longrightarrow> fs w d \<noteq> Some Directory \<Longrightarrow>
     TemporaryDirectory_exit self w = (Inl OSError, (self, w))"
  by (simp add: TemporaryDirectory_exit_def ContextManager_exit_def rmtree_raises)

lemma TemporaryDirectory_exit_None:
  "temporary_directory self = None \<Longrightarrow> TemporaryDirectory_exit self w = (Inr (), (self, w))"
  by (simp add: TemporaryDirectory_exit_def ContextManager_exit_def)

lemma CustomSearchPath_exit_Value:
  assumes "temporary_directory self = Some d" and "fs w d = Some Directory"
    and "original_value (patched_item self) = Value p"
  shows "CustomSearchPath_exit self w =
       (Inr (), (self\<lparr>temporary_directory := None\<rparr>,
                 w\<lparr>environ := (environ w)(to_patch (patched_item self) \<mapsto> p),
                   fs := (\<lambda>q. if below d q then None else fs w q),
                   trace := trace w @ [Rmtree d,
                     ItemRestored (to_patch (patched_item self)) (Value p)]\<rparr>))"
  using assms
  by (simp add: CustomSearchPath_exit_def CustomSearchPath_PatchedItem_exit_def
      TemporaryDirectory_exit_Directory PatchedItem_exit_body_def setitem_def emit_def)

lemma CustomSearchPath_exit_NOTHING:
  assumes "temporary_directory self = Some d" and "fs w d = Some Directory"
    and "original_value (patched_item self) = NOTHING"
    and "environ w (to_patch (patched_item self)) \<noteq> None"
  shows "CustomSearchPath_exit self w =
       (Inr (), (self\<lparr>temporary_directory := None\<rparr>,
                 w\<lparr>environ := (environ w)(to_patch (patched_item self) := None),
                   fs := (\<lambda>q. if below d q then None else fs w q),
                   trace := trace w @ [Rmtree d,
                     ItemRestored (to_patch (patched_item self)) NOTHING]\<rparr>))"
  using assms
  by (auto simp add: CustomSearchPath_exit_def CustomSearchPath_PatchedItem_exit_def
      TemporaryDirectory_exit_Directory PatchedItem_exit_body_def delitem_def emit_def)

lemma CustomSearchPath_exit_raises:
  "temporary_directory self = Some d \<Longrightarrow> fs w d \<noteq> Some Directory \<Longrightarrow>
     CustomSearchPath_exit self w = (Inl OSError, (self, w))"
  by (simp add: CustomSearchPath_exit_def CustomSearchPath_PatchedItem_exit_def
      TemporaryDirectory_exit_raises)


text \<open>
  Claim C7. While a CustomSearchPath scope is active, the value of \<^verbatim>\<open>PATH\<close> in the
  environment is the directory returned by enter alone when \<open>isolated\<close> is true, and
  that directory, the path separator and the original value when \<open>isolated\<close> is
  false. Leaving the scope restores the original value verbatim: straight after enter
  the whole environment is as before, and after any body that has left the directory
  recorded in the scope in place, \<^verbatim>\<open>PATH\<close> has the original value again.
\<close>

theorem search_path_while_active:
  assumes "environ w ''PATH'' = Some p"
    and "CustomSearchPath_enter (CustomSearchPath_init isolated wi) w = (Inr directory, (self, w1))"
  shows "environ w1 ''PATH'' = Some (if isolated then directory else directory @ pathsep w # p)
     \<and> (\<exists>self2 w2. CustomSearchPath_exit self w1 = (Inr (), (self2, w2)) \<and> environ w2 = environ w)
     \<and> (\<forall>wb. (\<exists>d. temporary_directory self = Some d \<and> fs wb d = Some Directory) \<longrightarrow>
           (\<exists>self2 w2. CustomSearchPath_exit self wb = (Inr (), (self2, w2))
              \<and> environ w2 = (environ wb)(''PATH'' \<mapsto> p)))"
proof -
  let ?self0 = "CustomSearchPath_init isolated wi"
  have i: "isolated_search_path ?self0 = isolated" "to_patch (patched_item ?self0) = ''PATH''"
    by (simp_all add: CustomSearchPath_init_def patch_init_def)
  have cur: "current_search_path w = p"
    using assms(1) by (simp add: current_search_path_def)
  from CustomSearchPath_enter_Inr [OF assms(2)] obtain d2 ns v where
    v0: "v = (if isolated_search_path ?self0 then directory
              else directory @ pathsep w # current_search_path w)"
    and s0: "self = ?self0\<lparr>temporary_directory := Some d2,
            patched_item := (patched_item ?self0)\<lparr>patched_value := v,
              original_value := (case environ w (to_patch (patched_item ?self0)) of
                                   None \<Rightarrow> NOTHING | Some u \<Rightarrow> Value u)\<rparr>\<rparr>"
    and w0: "w1 = w\<lparr>environ := (environ w)(to_patch (patched_item ?self0) \<mapsto> v),
                 fs := (fs w)(directory \<mapsto> Directory, d2 \<mapsto> Directory),
                 mkdtemp_names := ns,
                 trace := trace w @ [Mkdtemp directory, Mkdtemp d2,
                   ItemPatched (to_patch (patched_item ?self0)) v]\<rparr>"
    by blast
  have v: "v = (if isolated then directory else directory @ pathsep w # p)"
    by (simp add: v0 i cur)
  have s: "self = ?self0\<lparr>temporary_directory := Some d2,
            patched_item := (patched_item ?self0)\<lparr>patched_value := v, original_value := Value p\<rparr>\<rparr>"
    using s0 assms(1) by (simp add: i)
  have w1: "w1 = w\<lparr>environ := (environ w)(''PATH'' \<mapsto> v),
                 fs := (fs w)(directory \<mapsto> Directory, d2 \<mapsto> Directory),
                 mkdtemp_names := ns,
                 trace := trace w @ [Mkdtemp directory, Mkdtemp d2, ItemPatched ''PATH'' v]\<rparr>"
    using w0 by (simp add: i)
  have t: "temporary_directory self = Some d2" "original_value (patched_item self) = Value p"
    "to_patch (patched_item self) = ''PATH''"
    by (simp_all add: s i)
  have a: "environ w1 ''PATH'' = Some (if isolated then directory else directory @ pathsep w # p)"
    by (simp add: w1 v)
  have "fs w1 d2 = Some Directory" by (simp add: w1)
  from CustomSearchPath_exit_Value [OF t(1) this t(2)]
  have b: "\<exists>self2 w2. CustomSearchPath_exit self w1 = (Inr (), (self2, w2)) \<and> environ w2 = environ w"
    using assms(1) by (simp add: t w1 fun_upd_idem)
  have c: "\<exists>self2 w2. CustomSearchPath_exit self wb = (Inr (), (self2, w2))
              \<and> environ w2 = (environ wb)(''PATH'' \<mapsto> p)"
    if "\<exists>d. temporary_directory self = Some d \<and> fs wb d = Some Directory" for wb
    using that CustomSearchPath_exit_Value [of self d2 wb p] by (auto simp: t)
  from a b c show ?thesis by blast
qed

theorem search_path_while_active_witness:
  "environ example_world ''PATH'' = Some ''/bin:/usr/bin''
   \<and> fst (CustomSearchPath_enter (CustomSearchPath_init False example_world) example_world)
         = Inr ''/tmp/a''
   \<and> environ (snd (snd (CustomSearchPath_enter (CustomSearchPath_init False example_world)
         example_world))) ''PATH'' = Some ''/tmp/a:/bin:/usr/bin''
   \<and> (\<exists>self2 w2.
         CustomSearchPath_exit
           (fst (snd (CustomSearchPath_enter (CustomSearchPath_init False example_world)
              example_world)))
           (snd (snd (CustomSearchPath_enter (CustomSearchPath_init False example_world)
              example_world))) = (Inr (), (self2, w2))
         \<and> environ w2 = environ example_world)"
proof -
  let ?E = "CustomSearchPath_enter (CustomSearchPath_init False example_world) example_world"
  have h1: "environ example_world ''PATH'' = Some ''/bin:/usr/bin''"
    by (simp add: example_world_def)
  have h2: "fst ?E = Inr ''/tmp/a''"
    by (simp add: example_world_def CustomSearchPath_enter_def CustomSearchPath_init_def
        CustomSearchPath_PatchedItem_enter_def TemporaryDirectory_enter_def
        ContextManager_enter_def mkdtemp_def emit_def patch_init_def PatchedItem_enter_body_eq
        current_search_path_def Let_def)
  have h3: "?E = (Inr ''/tmp/a'', (fst (snd ?E), snd (snd ?E)))"
    using h2 by (metis prod.collapse)
  have ps: "pathsep example_world = CHR '':''"
    by (simp add: example_world_def)
  from search_path_while_active [OF h1 h3] show ?thesis
    using h1 h2 by (simp add: ps)
qed

text \<open>
  Claim C10. When the environment has no \<^verbatim>\<open>PATH\<close> entry at the time a CustomSearchPath
  scope is entered, the patched value is built from \<^verbatim>\<open>os.defpath\<close> in the non-isolated
  case (the directory, the separator, \<^verbatim>\<open>os.defpath\<close>), the original value recorded is
  \<open>NOTHING\<close>, and exit deletes the entry: afterwards \<^verbatim>\<open>PATH\<close> is not a key of the
  environment, which is as it was before enter.
\<close>

theorem absent_search_path_restored_absent:
  assumes "environ w ''PATH'' = None"
    and "CustomSearchPath_enter (CustomSearchPath_init isolated wi) w = (Inr directory, (self, w1))"
  shows "environ w1 ''PATH'' =
           Some (if isolated then directory else directory @ pathsep w # defpath w)
     \<and> original_value (patched_item self) = NOTHING
     \<and> (\<exists>self2 w2. CustomSearchPath_exit self w1 = (Inr (), (self2, w2))
           \<and> environ w2 ''PATH'' = None \<and> ''PATH'' \<notin> dom (environ w2)
           \<and> environ w2 = environ w)"
proof -
  let ?self0 = "CustomSearchPath_init isolated wi"
  have i: "isolated_search_path ?self0 = isolated" "to_patch (patched_item ?self0) = ''PATH''"
    by (simp_all add: CustomSearchPath_init_def patch_init_def)
  have cur: "current_search_path w = defpath w"
    using assms(1) by (simp add: current_search_path_def)
  from CustomSearchPath_enter_Inr [OF assms(2)] obtain d2 ns v where
    v0: "v = (if isolated_search_path ?self0 then directory
              else directory @ pathsep w # current_search_path w)"
    and s0: "self = ?self0\<lparr>temporary_directory := Some d2,
            patched_item := (patched_item ?self0)\<lparr>patched_value := v,
              original_value := (case environ w (to_patch (patched_item ?self0)) of
                                   None \<Rightarrow> NOTHING | Some u \<Rightarrow> Value u)\<rparr>\<rparr>"
    and w0: "w1 = w\<lparr>environ := (environ w)(to_patch (patched_item ?self0) \<mapsto> v),
                 fs := (fs w)(directory \<mapsto> Directory, d2 \<mapsto> Directory),
                 mkdtemp_names := ns,
                 trace := trace w @ [Mkdtemp directory, Mkdtemp d2,
                   ItemPatched (to_patch (patched_item ?self0)) v]\<rparr>"
    by blast
  have v: "v = (if isolated then directory else directory @ pathsep w # defpath w)"
    by (simp add: v0 i cur)
  have t: "temporary_directory self = Some d2" "original_value (patched_item self) = NOTHING"
    "to_patch (patched_item self) = ''PATH''"
    using assms(1) by (simp_all add: s0 i)
  have w1: "environ w1 = (environ w)(''PATH'' \<mapsto> v)" "fs w1 d2 = Some Directory"
    by (simp_all add: w0 i)
  have a: "environ w1 ''PATH'' =
             Some (if isolated then directory else directory @ pathsep w # defpath w)"
    by (simp add: w1 v)
  have p: "environ w1 (to_patch (patched_item self)) \<noteq> None"
    by (simp add: t w1)
  have r: "(environ w)(''PATH'' := None) = environ w"
    using assms(1) by (simp add: fun_upd_idem)
  from CustomSearchPath_exit_NOTHING [OF t(1) w1(2) t(2) p]
  have b: "\<exists>self2 w2. CustomSearchPath_exit self w1 = (Inr (), (self2, w2))
           \<and> environ w2 ''PATH'' = None \<and> ''PATH'' \<notin> dom (environ w2)
           \<and> environ w2 = environ w"
    using assms(1) by (simp add: t w1 r domIff)
  from a t(2) b show ?thesis by blast
qed

theorem absent_search_path_restored_absent_witness:
  "environ (example_world\<lparr>environ := Map.empty\<rparr>) ''PATH'' = None
   \<and> fst (CustomSearchPath_enter (CustomSearchPath_init False example_world)
            (example_world\<lparr>environ := Map.empty\<rparr>)) = Inr ''/tmp/a''
   \<and> environ (snd (snd (CustomSearchPath_enter (CustomSearchPath_init False example_world)
         (example_world\<lparr>environ := Map.empty\<rparr>)))) ''PATH'' = Some ''/tmp/a:/bin:/usr/bin''
   \<and> (\<exists>self2 w2.
         CustomSearchPath_exit
           (fst (snd (CustomSearchPath_enter (CustomSearchPath_init False example_world)
              (example_world\<lparr>environ := Map.empty\<rparr>))))
           (snd (snd (CustomSearchPath_enter (CustomSearchPath_init False example_world)
              (example_world\<lparr>environ := Map.empty\<rparr>)))) = (Inr (), (self2, w2))
         \<and> ''PATH'' \<notin> dom (environ w2))"
proof -
  let ?w = "example_world\<lparr>environ := Map.empty\<rparr>"
  let ?E = "CustomSearchPath_enter (CustomSearchPath_init False example_world) ?w"
  have h1: "environ ?w ''PATH'' = None"
    by simp
  have h2: "fst ?E = Inr ''/tmp/a''"
    by (simp add: example_world_def CustomSearchPath_enter_def CustomSearchPath_init_def
        CustomSearchPath_PatchedItem_enter_def TemporaryDirectory_enter_def
        ContextManager_enter_def mkdtemp_def emit_def patch_init_def PatchedItem_enter_body_eq
        current_search_path_def Let_def)
  have h3: "?E = (Inr ''/tmp/a'', (fst (snd ?E), snd (snd ?E)))"
    using h2 by (metis prod.collapse)
  have ps: "pathsep ?w = CHR '':''" "defpath ?w = ''/bin:/usr/bin''"
    by (simp_all add: example_world_def)
  from absent_search_path_restored_absent [OF h1 h3] show ?thesis
    using h2 by (auto simp: ps)
qed

section \<open>The order of the teardown of a CustomSearchPath\<close>

lemmas scope_defs =
  CustomSearchPath_enter_def CustomSearchPath_init_def CustomSearchPath_PatchedItem_enter_def
  CustomSearchPath_exit_def CustomSearchPath_PatchedItem_exit_def
  TemporaryDirectory_enter_def TemporaryDirectory_exit_def TemporaryDirectory_init_def
  ContextManager_enter_def ContextManager_exit_def mkdtemp_def rmtree_def emit_def
  patch_init_def PatchedItem_enter_body_eq PatchedItem_exit_body_def setitem_def delitem_def
  current_search_path_def below_def Let_def

lemma example_enter:
  "CustomSearchPath_enter (CustomSearchPath_init False example_world) example_world =
     (Inr ''/tmp/a'',
      (\<lparr>mkdtemp_options = [], temporary_directory = Some ''/tmp/b'',
        isolated_search_path = False,
        patched_item = \<lparr>to_patch = ''PATH'', patched_value = ''/tmp/a:/bin:/usr/bin'',
                         original_value = Value ''/bin:/usr/bin''\<rparr>\<rparr>,
       example_world\<lparr>environ := [''PATH'' \<mapsto> ''/tmp/a:/bin:/usr/bin''],
         fs := [''/tmp/a'' \<mapsto> Directory, ''/tmp/b'' \<mapsto> Directory],
         mkdtemp_names := [],
         trace := [Mkdtemp ''/tmp/a'', Mkdtemp ''/tmp/b'',
                   ItemPatched ''PATH'' ''/tmp/a:/bin:/usr/bin'']\<rparr>))"
  by (simp add: example_world_def scope_defs)

text \<open>
  Claim C3, as stated, asks that exit restores the environment first and removes the
  directory second. In the example world the trace of enter followed by exit ends with
  the removal of the directory, then the restoration of \<^verbatim>\<open>PATH\<close>: the reverse of
  what the claim states.
\<close>

theorem search_path_teardown_order_counterexample:
  "trace (snd (snd (CustomSearchPath_exit
       (fst (snd (CustomSearchPath_enter (CustomSearchPath_init False example_world)
          example_world)))
       (snd (snd (CustomSearchPath_enter (CustomSearchPath_init False example_world)
          example_world))))))
     = [Mkdtemp ''/tmp/a'', Mkdtemp ''/tmp/b'', ItemPatched ''PATH'' ''/tmp/a:/bin:/usr/bin'',
        Rmtree ''/tmp/b'', ItemRestored ''PATH'' (Value ''/bin:/usr/bin'')]
   \<and> trace (snd (snd (CustomSearchPath_exit
       (fst (snd (CustomSearchPath_enter (CustomSearchPath_init False example_world)
          example_world)))
       (snd (snd (CustomSearchPath_enter (CustomSearchPath_init False example_world)
          example_world))))))
     \<noteq> [Mkdtemp ''/tmp/a'', Mkdtemp ''/tmp/b'', ItemPatched ''PATH'' ''/tmp/a:/bin:/usr/bin'',
        ItemRestored ''PATH'' (Value ''/bin:/usr/bin''), Rmtree ''/tmp/b'']"
  by (simp add: example_enter) (simp add: example_world_def scope_defs)

text \<open>
  Claim C3, amended. On exit of a CustomSearchPath scope the teardown happens in the
  order of acquisition: the directory recorded in the scope is removed first and the
  \<^verbatim>\<open>PATH\<close> entry of the environment is restored second. When the removal raises
  (the directory is gone), the exception leaves exit and the environment is left as it
  is. Exit returns normally when the directory is there and the entry to delete, if the
  original was absent, is there.
\<close>

theorem search_path_teardown_order:
  "(temporary_directory self = Some d \<and> CustomSearchPath_exit self w = (Inr (), (self2, w2))
      \<longrightarrow> trace w2 = trace w @ [Rmtree d, ItemRestored (to_patch (patched_item self))
                                              (original_value (patched_item self))])
   \<and> (temporary_directory self = Some d \<and> fs w d \<noteq> Some Directory
      \<longrightarrow> CustomSearchPath_exit self w = (Inl OSError, (self, w)))
   \<and> (temporary_directory self = Some d \<and> fs w d = Some Directory
        \<and> (original_value (patched_item self) = NOTHING
             \<longrightarrow> environ w (to_patch (patched_item self)) \<noteq> None)
      \<longrightarrow> fst (CustomSearchPath_exit self w) = Inr ())"
proof -
  have a: "trace w2 = trace w @ [Rmtree d, ItemRestored (to_patch (patched_item self))
                                              (original_value (patched_item self))]"
    if t: "temporary_directory self = Some d" and e: "CustomSearchPath_exit self w = (Inr (), (self2, w2))"
  proof (cases "fs w d = Some Directory")
    case False
    with CustomSearchPath_exit_raises [OF t] e show ?thesis by simp
  next
    case True
    show ?thesis
    proof (cases "original_value (patched_item self)")
      case (Value p)
      from CustomSearchPath_exit_Value [OF t True Value] e show ?thesis
        by (auto simp: Value)
    next
      case NOTHING
      show ?thesis
      proof (cases "environ w (to_patch (patched_item self))")
        case (Some u)
        then have "environ w (to_patch (patched_item self)) \<noteq> None" by simp
        from CustomSearchPath_exit_NOTHING [OF t True NOTHING this] e show ?thesis
          by (auto simp: NOTHING)
      next
        case None
        with t True NOTHING e show ?thesis
          by (simp add: CustomSearchPath_exit_def CustomSearchPath_PatchedItem_exit_def
              TemporaryDirectory_exit_Directory PatchedItem_exit_body_def delitem_def dom_def)
      qed
    qed
  qed
  have c: "fst (CustomSearchPath_exit self w) = Inr ()"
    if t: "temporary_directory self = Some d" and f: "fs w d = Some Directory"
      and n: "original_value (patched_item self) = NOTHING
             \<longrightarrow> environ w (to_patch (patched_item self)) \<noteq> None"
  proof (cases "original_value (patched_item self)")
    case (Value p)
    from CustomSearchPath_exit_Value [OF t f Value] show ?thesis by simp
  next
    case NOTHING
    with n have "environ w (to_patch (patched_item self)) \<noteq> None" by simp
    from CustomSearchPath_exit_NOTHING [OF t f NOTHING this] show ?thesis by simp
  qed
  from a c CustomSearchPath_exit_raises [of self d w] show ?thesis by blast
qed

theorem search_path_teardown_order_witness:
  "temporary_directory (fst (snd (CustomSearchPath_enter (CustomSearchPath_init False
       example_world) example_world))) = Some ''/tmp/b''
   \<and> fst (CustomSearchPath_exit
       (fst (snd (CustomSearchPath_enter (CustomSearchPath_init False example_world)
          example_world)))
       (snd (snd (CustomSearchPath_enter (CustomSearchPath_init False example_world)
          example_world)))) = Inr ()
   \<and> trace (snd (snd (CustomSearchPath_exit
       (fst (snd (CustomSearchPath_enter (CustomSearchPath_init False example_world)
          example_world)))
       (snd (snd (CustomSearchPath_enter (CustomSearchPath_init False example_world)
          example_world))))))
     = trace (snd (snd (CustomSearchPath_enter (CustomSearchPath_init False example_world)
          example_world)))
       @ [Rmtree ''/tmp/b'', ItemRestored ''PATH'' (Value ''/bin:/usr/bin'')]"
proof -
  let ?E = "CustomSearchPath_enter (CustomSearchPath_init False example_world) example_world"
  let ?X = "CustomSearchPath_exit (fst (snd ?E)) (snd (snd ?E))"
  have t: "temporary_directory (fst (snd ?E)) = Some ''/tmp/b''"
    "to_patch (patched_item (fst (snd ?E))) = ''PATH''"
    "original_value (patched_item (fst (snd ?E))) = Value ''/bin:/usr/bin''"
    "fs (snd (snd ?E)) ''/tmp/b'' = Some Directory"
    by (simp_all add: example_enter)
  have ok: "fst ?X = Inr ()"
    using search_path_teardown_order [of "fst (snd ?E)" "''/tmp/b''" "snd (snd ?E)"] t
    by simp
  then have x: "?X = (Inr (), (fst (snd ?X), snd (snd ?X)))"
    by (metis prod.collapse)
  from search_path_teardown_order
    [of "fst (snd ?E)" "''/tmp/b''" "snd (snd ?E)" "fst (snd ?X)" "snd (snd ?X)"] t ok x
  show ?thesis by simp
qed

section \<open>Leaving a TemporaryDirectory twice\<close>

text \<open>
  Claim C9. Exit of a TemporaryDirectory is idempotent: an exit that returns has cleared
  the stored path to \<^verbatim>\<open>None\<close>, and a second exit of the same scope returns without
  raising and changes nothing. After an enter that returned the directory exists, exit
  returns, and the directory is gone afterwards.
\<close>

theorem temporary_directory_exit_idempotent:
  "(TemporaryDirectory_exit self w = (Inr (), (self1, w1))
      \<longrightarrow> temporary_directory self1 = None
          \<and> TemporaryDirectory_exit self1 w1 = (Inr (), (self1, w1)))
   \<and> (TemporaryDirectory_enter s0 w0 = (Inr d, (s, v))
      \<longrightarrow> fs v d = Some Directory
          \<and> (\<exists>v1. TemporaryDirectory_exit s v = (Inr (), (s\<lparr>temporary_directory := None\<rparr>, v1))
                 \<and> fs v1 d = None))"
proof -
  have a: "temporary_directory self1 = None
          \<and> TemporaryDirectory_exit self1 w1 = (Inr (), (self1, w1))"
    if e: "TemporaryDirectory_exit self w = (Inr (), (self1, w1))"
  proof -
    from e have "temporary_directory self1 = None"
      by (auto simp: TemporaryDirectory_exit_def ContextManager_exit_def
          split: option.splits prod.splits sum.splits)
    then show ?thesis
      by (simp add: TemporaryDirectory_exit_None)
  qed
  have b: "fs v d = Some Directory
          \<and> (\<exists>v1. TemporaryDirectory_exit s v = (Inr (), (s\<lparr>temporary_directory := None\<rparr>, v1))
                 \<and> fs v1 d = None)"
    if e: "TemporaryDirectory_enter s0 w0 = (Inr d, (s, v))"
  proof -
    from TemporaryDirectory_enter_Inr [OF e]
    have s: "s = s0\<lparr>temporary_directory := Some d\<rparr>"
      and m: "mkdtemp (mkdtemp_options s0) w0 = (Inr d, v)"
      by simp_all
    from mkdtemp_Inr(2) [OF m] have f: "fs v d = Some Directory"
      by auto
    have t: "temporary_directory s = Some d"
      by (simp add: s)
    from TemporaryDirectory_exit_Directory [OF t f] f show ?thesis
      by (simp add: below_def)
  qed
  from a b show ?thesis by blast
qed

theorem temporary_directory_exit_idempotent_witness:
  "fst (TemporaryDirectory_enter (TemporaryDirectory_init []) example_world) = Inr ''/tmp/a''
   \<and> fs (snd (snd (TemporaryDirectory_enter (TemporaryDirectory_init []) example_world)))
        ''/tmp/a'' = Some Directory
   \<and> (\<exists>v1. TemporaryDirectory_exit
         (fst (snd (TemporaryDirectory_enter (TemporaryDirectory_init []) example_world)))
         (snd (snd (TemporaryDirectory_enter (TemporaryDirectory_init []) example_world)))
        = (Inr (), (TemporaryDirectory_init [], v1))
      \<and> fs v1 ''/tmp/a'' = None
      \<and> TemporaryDirectory_exit (TemporaryDirectory_init []) v1
          = (Inr (), (TemporaryDirectory_init [], v1)))"
proof -
  let ?E = "TemporaryDirectory_enter (TemporaryDirectory_init []) example_world"
  have h: "fst ?E = Inr ''/tmp/a''"
    by (simp add: example_world_def scope_defs)
  then have e: "?E = (Inr ''/tmp/a'', (fst (snd ?E), snd (snd ?E)))"
    by (metis prod.collapse)
  have s: "fst (snd ?E)\<lparr>temporary_directory := None\<rparr> = TemporaryDirectory_init []"
    by (simp add: example_world_def scope_defs split: prod.splits)
  from temporary_directory_exit_idempotent
    [of "fst (snd ?E)" "snd (snd ?E)" "fst (snd ?E)" "snd (snd ?E)"
       "TemporaryDirectory_init []" example_world "''/tmp/a''"
       "fst (snd ?E)" "snd (snd ?E)"] e
  obtain v1 where f: "fs (snd (snd ?E)) ''/tmp/a'' = Some Directory"
    and x: "TemporaryDirectory_exit (fst (snd ?E)) (snd (snd ?E))
              = (Inr (), (TemporaryDirectory_init [], v1))"
    and n: "fs v1 ''/tmp/a'' = None"
    by (auto simp: s)
  from temporary_directory_exit_idempotent
    [of "fst (snd ?E)" "snd (snd ?E)" "TemporaryDirectory_init []" v1, THEN conjunct1] x
  have "TemporaryDirectory_exit (TemporaryDirectory_init []) v1
          = (Inr (), (TemporaryDirectory_init [], v1))"
    by simp
  with h f x n show ?thesis by blast
qed

section \<open>Leaving a MockedProgram whose program was never run\<close>

lemmas mocked_defs =
  MockedProgram_enter_def MockedProgram_init_def random_string_def write_script_def
  os_path_join_def os_path_dirname_def assert_program_was_run_def os_path_isfile_def
  MockedProgram_exit_def py_repr_def repr_char_def

lemma example_mocked_enter:
  "MockedProgram_enter (MockedProgram_init ''prog'' 0 example_world) example_world =
     (Inr ''/tmp/a'',
      (\<lparr>mkdtemp_options = [], temporary_directory = Some ''/tmp/b'',
        isolated_search_path = False,
        patched_item = \<lparr>to_patch = ''PATH'', patched_value = ''/tmp/a:/bin:/usr/bin'',
                         original_value = Value ''/bin:/usr/bin''\<rparr>,
        program_name = ''prog'', program_returncode = 0,
        program_signal_file = Some ''/tmp/a/program-was-run-xyz''\<rparr>,
       example_world\<lparr>environ := [''PATH'' \<mapsto> ''/tmp/a:/bin:/usr/bin''],
         fs := [''/tmp/a'' \<mapsto> Directory, ''/tmp/b'' \<mapsto> Directory,
                ''/tmp/a/prog'' \<mapsto> RegularFile],
         mkdtemp_names := [], random_strings := [],
         trace := [Mkdtemp ''/tmp/a'', Mkdtemp ''/tmp/b'',
                   ItemPatched ''PATH'' ''/tmp/a:/bin:/usr/bin'']\<rparr>))"
  by (simp add: example_world_def scope_defs mocked_defs)

text \<open>
  A program name with a directory part cannot be created in the fresh directory: enter
  raises.
\<close>

lemma example_mocked_enter_subdirectory:
  "fst (MockedProgram_enter (MockedProgram_init ''sub/prog'' 0 example_world) example_world)
     = Inl OSError"
  by (simp add: example_world_def scope_defs mocked_defs)

lemma MockedProgram_exit_is_inherited_exit:
  "MockedProgram_exit self w = CustomSearchPath_exit self w"
  by (simp add: MockedProgram_exit_def split: sum.splits)

lemma MockedProgram_exit_never_AssertionError:
  "fst (MockedProgram_exit self w) \<noteq> Inl (AssertionError m)"
  by (auto simp: MockedProgram_exit_is_inherited_exit CustomSearchPath_exit_def
      CustomSearchPath_PatchedItem_exit_def TemporaryDirectory_exit_def ContextManager_exit_def
      rmtree_def PatchedItem_exit_body_def delitem_def Let_def
      split: option.splits prod.splits sum.splits original.splits if_splits)

text \<open>
  Claim C2 asks that exit of a MockedProgram whose signal file does not exist raises an
  assertion failure to the caller, with the inherited cleanup still performed. In the
  example world the scope is entered and left at once, so the program was never run:
  the assertion of lines 389-390 fails, the cleanup is performed (the environment is as
  before), and exit returns normally, because the \<^verbatim>\<open>return\<close> inside \<^verbatim>\<open>finally\<close> has
  discarded the assertion failure.
\<close>

theorem mocked_program_exit_discards_assertion:
  "assert_program_was_run
       (fst (snd (MockedProgram_enter (MockedProgram_init ''prog'' 0 example_world)
          example_world)))
       (snd (snd (MockedProgram_enter (MockedProgram_init ''prog'' 0 example_world)
          example_world)))
     = Inl (AssertionError ''It looks like 'prog' was never run!'')
   \<and> fst (MockedProgram_exit
       (fst (snd (MockedProgram_enter (MockedProgram_init ''prog'' 0 example_world)
          example_world)))
       (snd (snd (MockedProgram_enter (MockedProgram_init ''prog'' 0 example_world)
          example_world)))) = Inr ()
   \<and> environ (snd (snd (MockedProgram_exit
       (fst (snd (MockedProgram_enter (MockedProgram_init ''prog'' 0 example_world)
          example_world)))
       (snd (snd (MockedProgram_enter (MockedProgram_init ''prog'' 0 example_world)
          example_world)))))) = environ example_world"
  by (simp add: example_mocked_enter) (simp add: example_world_def scope_defs mocked_defs)

section \<open>The order in which CaptureOutput applies and removes its patches\<close>

lemma sys_PatchedAttribute_enter_eq:
  "sys_PatchedAttribute_enter c w =
     (c\<lparr>original_value := (case sys w (to_patch c) of None \<Rightarrow> NOTHING | Some v \<Rightarrow> Value v)\<rparr>,
      w\<lparr>sys := (sys w)(to_patch c \<mapsto> patched_value c),
        trace := trace w @ [AttrPatched (to_patch c)]\<rparr>)"
  by (simp add: sys_PatchedAttribute_enter_def PatchedAttribute_enter_def
      ContextManager_enter_def getattr_default_def setattr_def emit_def Let_def)

lemma sys_PatchedAttribute_exit_eq:
  assumes "sys w (to_patch c) \<noteq> None"
  shows "sys_PatchedAttribute_exit c w =
     (Inr (), (c, w\<lparr>sys := (sys w)(to_patch c :=
                         (case original_value c of NOTHING \<Rightarrow> None | Value v \<Rightarrow> Some v)),
                    trace := trace w @ [AttrRestored (to_patch c)]\<rparr>))"
  using assms
  by (auto simp: sys_PatchedAttribute_exit_def PatchedAttribute_exit_def
      ContextManager_exit_def setattr_def delattr_def emit_def Let_def split: original.splits)

lemma CaptureOutput_init_eq:
  assumes "CaptureOutput_init merged input w0 = (c, w)"
  shows "patched_attributes c = [patch_init ''stdin'' (stdin c), patch_init ''stdout'' (stdout c),
                                 patch_init ''stderr'' (stderr c)]"
    and "sys w = sys w0" and "trace w = trace w0"
    and "stdin c = PStringIO (length (stringio w0))"
    and "stdout c = PStringIO (Suc (length (stringio w0)))"
    and "stderr c = (if merged then stdout c else PStringIO (Suc (Suc (length (stringio w0)))))"
    and "stringio w = stringio w0 @ (if merged then [input, []] else [input, [], []])"
  using assms
  by (auto simp: CaptureOutput_init_def StringIO_def split: if_splits)

lemmas capture_defs =
  CaptureOutput_init_def StringIO_def CaptureOutput_enter_def CaptureOutput_exit_def
  ContextManager_enter_def ContextManager_exit_def sys_PatchedAttribute_enter_eq
  sys_PatchedAttribute_exit_def PatchedAttribute_exit_def setattr_def delattr_def
  emit_def patch_init_def CaptureOutput_getvalue_def Let_def

text \<open>
  Claim C8, as stated, asks that exit deactivates the three patches in the reverse of the
  order of activation. In the example world the trace of enter followed by exit shows
  the patches removed in the order stdin, stdout, stderr, which is the order of
  activation and not its reverse.
\<close>

theorem capture_output_patch_order_counterexample:
  "trace (snd (snd (CaptureOutput_exit
      (fst (CaptureOutput_enter (fst (CaptureOutput_init False [] example_world))
              (snd (CaptureOutput_init False [] example_world))))
      (snd (CaptureOutput_enter (fst (CaptureOutput_init False [] example_world))
              (snd (CaptureOutput_init False [] example_world)))))))
     = [AttrPatched ''stdin'', AttrPatched ''stdout'', AttrPatched ''stderr'',
        AttrRestored ''stdin'', AttrRestored ''stdout'', AttrRestored ''stderr'']
   \<and> trace (snd (snd (CaptureOutput_exit
      (fst (CaptureOutput_enter (fst (CaptureOutput_init False [] example_world))
              (snd (CaptureOutput_init False [] example_world))))
      (snd (CaptureOutput_enter (fst (CaptureOutput_init False [] example_world))
              (snd (CaptureOutput_init False [] example_world)))))))
     \<noteq> [AttrPatched ''stdin'', AttrPatched ''stdout'', AttrPatched ''stderr'',
        AttrRestored ''stderr'', AttrRestored ''stdout'', AttrRestored ''stdin'']"
  by (simp add: example_world_def capture_defs)

text \<open>
  Claim C8, amended. Enter of a CaptureOutput applies one PatchedAttribute per stream in
  the fixed order stdin, stdout, stderr and has activated all three when it returns;
  exit deactivates them in the same order stdin, stdout, stderr, and straight after
  enter it returns normally with the attributes of \<^verbatim>\<open>sys\<close> as they were.
\<close>

theorem capture_output_patch_order:
  assumes "CaptureOutput_init merged input w0 = (c, w)"
    and "CaptureOutput_enter c w = (c1, w1)"
  shows "trace w1 = trace w @ [AttrPatched ''stdin'', AttrPatched ''stdout'', AttrPatched ''stderr'']
     \<and> sys w1 = (sys w)(''stdin'' \<mapsto> stdin c, ''stdout'' \<mapsto> stdout c, ''stderr'' \<mapsto> stderr c)
     \<and> (\<exists>c2 w2. CaptureOutput_exit c1 w1 = (Inr (), (c2, w2))
           \<and> trace w2 = trace w1 @ [AttrRestored ''stdin'', AttrRestored ''stdout'',
                                     AttrRestored ''stderr'']
           \<and> sys w2 = sys w)"
proof -
  note i = CaptureOutput_init_eq [OF assms(1)]
  define o1 where "o1 = (case sys w ''stdin'' of None \<Rightarrow> NOTHING | Some v \<Rightarrow> Value v)"
  define o2 where "o2 = (case sys w ''stdout'' of None \<Rightarrow> NOTHING | Some v \<Rightarrow> Value v)"
  define o3 where "o3 = (case sys w ''stderr'' of None \<Rightarrow> NOTHING | Some v \<Rightarrow> Value v)"
  from assms(2) have c1: "patched_attributes c1 =
      [\<lparr>to_patch = ''stdin'', patched_value = stdin c, original_value = o1\<rparr>,
       \<lparr>to_patch = ''stdout'', patched_value = stdout c, original_value = o2\<rparr>,
       \<lparr>to_patch = ''stderr'', patched_value = stderr c, original_value = o3\<rparr>]"
    and w1: "w1 = w\<lparr>sys := (sys w)(''stdin'' \<mapsto> stdin c, ''stdout'' \<mapsto> stdout c,
                                    ''stderr'' \<mapsto> stderr c),
                    trace := trace w @ [AttrPatched ''stdin'', AttrPatched ''stdout'',
                                        AttrPatched ''stderr'']\<rparr>"
    by (auto simp: CaptureOutput_enter_def ContextManager_enter_def i(1)
        sys_PatchedAttribute_enter_eq patch_init_def o1_def o2_def o3_def)
  have r: "(case o1 of NOTHING \<Rightarrow> None | Value v \<Rightarrow> Some v) = sys w ''stdin''"
    "(case o2 of NOTHING \<Rightarrow> None | Value v \<Rightarrow> Some v) = sys w ''stdout''"
    "(case o3 of NOTHING \<Rightarrow> None | Value v \<Rightarrow> Some v) = sys w ''stderr''"
    by (simp_all add: o1_def o2_def o3_def split: option.splits)
  have x: "CaptureOutput_exit c1 w1 =
      (Inr (), (c1, w1\<lparr>sys := sys w,
                       trace := trace w1 @ [AttrRestored ''stdin'', AttrRestored ''stdout'',
                                            AttrRestored ''stderr'']\<rparr>))"
    apply (simp add: CaptureOutput_exit_def ContextManager_exit_def c1)
    apply (simp add: sys_PatchedAttribute_exit_eq w1 r)
    apply (subst c1 [symmetric])
    apply simp
    done
  show ?thesis
    using x by (simp add: w1)
qed

theorem capture_output_patch_order_witness:
  "trace (snd (CaptureOutput_enter (fst (CaptureOutput_init True [] example_world))
              (snd (CaptureOutput_init True [] example_world))))
     = [AttrPatched ''stdin'', AttrPatched ''stdout'', AttrPatched ''stderr'']
   \<and> (\<exists>c2 w2. CaptureOutput_exit
      (fst (CaptureOutput_enter (fst (CaptureOutput_init True [] example_world))
              (snd (CaptureOutput_init True [] example_world))))
      (snd (CaptureOutput_enter (fst (CaptureOutput_init True [] example_world))
              (snd (CaptureOutput_init True [] example_world)))) = (Inr (), (c2, w2))
       \<and> trace w2 = [AttrPatched ''stdin'', AttrPatched ''stdout'', AttrPatched ''stderr'',
                      AttrRestored ''stdin'', AttrRestored ''stdout'', AttrRestored ''stderr'']
       \<and> sys w2 = sys example_world)"
proof -
  let ?I = "CaptureOutput_init True [] example_world"
  let ?E = "CaptureOutput_enter (fst ?I) (snd ?I)"
  have t: "trace (snd ?I) = []" "sys (snd ?I) = sys example_world"
    by (simp_all add: example_world_def CaptureOutput_init_def StringIO_def)
  from capture_output_patch_order [of True "[]" example_world "fst ?I" "snd ?I" "fst ?E" "snd ?E"]
  show ?thesis
    by (auto simp: t)
qed

section \<open>The return code of run\_cli\<close>

lemmas cli_defs = run_cli_def call_entry_point_def with_exit_def example_options_def
  sys_stdout_write_def

text \<open>
  Claim C4 asks, among other things, that an entry point which signals exit without
  giving a code yields the return code 0. Such an entry point raises \<^verbatim>\<open>SystemExit\<close>
  whose \<^verbatim>\<open>code\<close> is \<^verbatim>\<open>None\<close>; line 133 takes that attribute as the return code, so
  the pair returned is \<^verbatim>\<open>(None, '')\<close> and not \<^verbatim>\<open>(0, '')\<close>.
\<close>

theorem run_cli_exit_without_code:
  "fst (run_cli (\<lambda>w. (Inl (SystemExit PNone), w)) [] example_options example_world)
     = Inr (PNone, [])
   \<and> fst (run_cli (\<lambda>w. (Inl (SystemExit PNone), w)) [] example_options example_world)
     \<noteq> Inr (PInt 0, [])"
  by (simp add: example_world_def capture_defs cli_defs)

text \<open>
  The other cases of the claim on the same world: an explicit code is returned beside
  the captured output, a normal return gives 0, and another exception leaves
  \<^verbatim>\<open>run_cli\<close> with the attributes of \<^verbatim>\<open>sys\<close> restored.
\<close>

lemma run_cli_examples:
  "fst (run_cli (\<lambda>w. (Inl (SystemExit (PInt 3)), sys_stdout_write ''hello'' w)) []
          example_options example_world) = Inr (PInt 3, ''hello'')"
  "fst (run_cli (\<lambda>w. (Inr PNone, w)) [] example_options example_world) = Inr (PInt 0, [])"
  "fst (run_cli (\<lambda>w. (Inl (OtherError ''boom''), w)) [] example_options example_world)
     = Inl (OtherError ''boom'')"
  by (simp_all add: example_world_def capture_defs cli_defs)

lemma run_cli_example_restores_sys:
  "sys (snd (run_cli (\<lambda>w. (Inl (OtherError ''boom''), w)) [] example_options example_world))
     = sys example_world"
  by (simp add: example_world_def capture_defs cli_defs) (rule ext, simp)

section \<open>The outcomes of retry\<close>

lemma retry_loop_returns:
  "func w = (Inr v, w') \<Longrightarrow> v \<noteq> PBool False \<Longrightarrow>
     retry_loop func exc_type timeout pause w = Some (Inr v, w')"
  by (subst retry_loop.simps) simp

lemma retry_loop_reraises:
  "func w = (Inl e, w') \<Longrightarrow> exc_type e \<Longrightarrow> now w' > timeout \<Longrightarrow>
     retry_loop func exc_type timeout pause w = Some (Inl e, w')"
  by (subst retry_loop.simps) simp

lemma retry_loop_propagates:
  "func w = (Inl e, w') \<Longrightarrow> \<not> exc_type e \<Longrightarrow>
     retry_loop func exc_type timeout pause w = Some (Inl e, w')"
  by (subst retry_loop.simps) simp

lemma retry_loop_times_out:
  "func w = (Inr (PBool False), w') \<Longrightarrow> now w' > timeout \<Longrightarrow>
     retry_loop func exc_type timeout pause w = Some (Inl CallableTimedOut, w')"
  by (subst retry_loop.simps) simp

lemma retry_loop_retries_False:
  "func w = (Inr (PBool False), w') \<Longrightarrow> \<not> now w' > timeout \<Longrightarrow>
     retry_loop func exc_type timeout pause w =
       retry_loop func exc_type timeout (next_pause pause) (time_sleep pause w')"
  by (subst retry_loop.simps) simp

lemma retry_loop_retries_exception:
  "func w = (Inl e, w') \<Longrightarrow> exc_type e \<Longrightarrow> \<not> now w' > timeout \<Longrightarrow>
     retry_loop func exc_type timeout pause w =
       retry_loop func exc_type timeout (next_pause pause) (time_sleep pause w')"
  by (subst retry_loop.simps) simp

lemma next_pause_lower: "1 / 10 \<le> pause \<Longrightarrow> 1 / 10 \<le> next_pause pause"
  by (simp add: next_pause_def)

lemma now_time_sleep: "now (time_sleep pause w) = now w + pause"
  by (simp add: time_sleep_def emit_def)

lemma retry_loop_retried:
  "retried func exc_type deadline w \<Longrightarrow>
     retry_loop func exc_type deadline pause w =
       retry_loop func exc_type deadline (next_pause pause) (time_sleep pause (snd (func w)))"
  by (subst retry_loop.simps) (auto simp: retried_def split: prod.splits sum.splits)

lemma retry_loop_skips_retried:
  "(\<forall>k<n. retried func exc_type deadline (attempt_world func pause k w)) \<Longrightarrow>
     retry_loop func exc_type deadline pause w =
       retry_loop func exc_type deadline ((next_pause ^^ n) pause) (attempt_world func pause n w)"
proof (induction n arbitrary: pause w)
  case 0
  show ?case by simp
next
  case (Suc n)
  from Suc.prems have r0: "retried func exc_type deadline w"
    and rs: "\<forall>k<n. retried func exc_type deadline
               (attempt_world func (next_pause pause) k (time_sleep pause (snd (func w))))"
    by (auto simp: All_less_Suc2)
  from Suc.IH [OF rs] retry_loop_retried [OF r0] show ?case
    by (simp add: funpow_swap1)
qed

lemma retry_loop_run:
  assumes "retry_loop func exc_type deadline pause w = Some (r, w1)"
  shows "\<exists>n. (\<forall>k<n. retried func exc_type deadline (attempt_world func pause k w))
     \<and> ((\<exists>v. func (attempt_world func pause n w) = (Inr v, w1) \<and> v \<noteq> PBool False \<and> r = Inr v)
        \<or> (func (attempt_world func pause n w) = (Inr (PBool False), w1) \<and> deadline < now w1
              \<and> r = Inl CallableTimedOut)
        \<or> (\<exists>e. func (attempt_world func pause n w) = (Inl e, w1) \<and> r = Inl e
              \<and> (exc_type e \<longrightarrow> deadline < now w1)))"
proof -
  let ?P = "\<lambda>func exc_type deadline pause w y.
     \<exists>n. (\<forall>k<n. retried func exc_type deadline (attempt_world func pause k w))
     \<and> ((\<exists>v. func (attempt_world func pause n w) = (Inr v, snd y) \<and> v \<noteq> PBool False
               \<and> fst y = Inr v)
        \<or> (func (attempt_world func pause n w) = (Inr (PBool False), snd y)
              \<and> deadline < now (snd y) \<and> fst y = Inl CallableTimedOut)
        \<or> (\<exists>e. func (attempt_world func pause n w) = (Inl e, snd y) \<and> fst y = Inl e
              \<and> (exc_type e \<longrightarrow> deadline < now (snd y))))"
  have "?P func exc_type deadline pause w (r, w1)"
  proof (rule retry_loop.raw_induct [where P = ?P, OF _ assms], goal_cases)
    case (1 rl f ex t p u y)
    show ?case
    proof (cases "retried f ex t u")
      case True
      obtain a u' where fu: "f u = (a, u')" by (cases "f u")
      with True 1(2) have "rl f ex t (next_pause p) (time_sleep p (snd (f u))) = Some y"
        by (cases a) (auto simp: retried_def split: if_splits)
      from 1(1) [OF this] obtain n where
        n: "\<forall>k<n. retried f ex t (attempt_world f (next_pause p) k (time_sleep p (snd (f u))))"
        and fin: "(\<exists>v. f (attempt_world f (next_pause p) n (time_sleep p (snd (f u))))
                      = (Inr v, snd y) \<and> v \<noteq> PBool False \<and> fst y = Inr v)
        \<or> (f (attempt_world f (next_pause p) n (time_sleep p (snd (f u))))
              = (Inr (PBool False), snd y) \<and> t < now (snd y) \<and> fst y = Inl CallableTimedOut)
        \<or> (\<exists>e. f (attempt_world f (next_pause p) n (time_sleep p (snd (f u))))
              = (Inl e, snd y) \<and> fst y = Inl e \<and> (ex e \<longrightarrow> t < now (snd y)))"
        by blast
      from True n have "\<forall>k<Suc n. retried f ex t (attempt_world f p k u)"
        by (simp add: All_less_Suc2)
      with fin show ?thesis
        by (intro exI [of _ "Suc n"]) simp
    next
      case False
      obtain a u' where fu: "f u = (a, u')" by (cases "f u")
      show ?thesis
      proof (cases a)
        case (Inl e)
        with False fu have c: "\<not> (ex e \<and> \<not> t < now u')"
          by (simp add: retried_def)
        with 1(2) fu Inl have "y = (Inl e, u')"
          by (auto split: if_splits)
        with fu Inl c show ?thesis
          by (intro exI [of _ 0]) auto
      next
        case (Inr v)
        with False fu have c: "\<not> (v = PBool False \<and> \<not> t < now u')"
          by (simp add: retried_def)
        with 1(2) fu Inr have "y = (if v \<noteq> PBool False then (Inr v, u')
                                    else (Inl CallableTimedOut, u'))"
          by (auto split: if_splits)
        with fu Inr c show ?thesis
          by (intro exI [of _ 0]) (cases "v = PBool False"; auto)
      qed
    qed
  qed
  then show ?thesis by simp
qed

lemma retry_loop_terminates:
  assumes mono: "\<And>u. now u \<le> now (snd (func u))"
  shows "1 / 10 \<le> pause \<Longrightarrow> timeout - now w < real n / 10 \<Longrightarrow>
           \<exists>y. retry_loop func exc_type timeout pause w = Some y"
proof (induction n arbitrary: pause w)
  case 0
  obtain a w' where f: "func w = (a, w')" by (cases "func w")
  with mono [of w] 0 have "timeout < now w'" by simp
  with f show ?case
    by (subst retry_loop.simps) (simp split: sum.splits)
next
  case (Suc n)
  obtain a w' where f: "func w = (a, w')" by (cases "func w")
  with mono [of w] have m: "now w \<le> now w'" by simp
  have "timeout - now (time_sleep pause w') < real n / 10"
    using Suc.prems m by (simp add: now_time_sleep field_simps)
  from Suc.IH [OF next_pause_lower [OF Suc.prems(1)] this]
  obtain y where "retry_loop func exc_type timeout (next_pause pause) (time_sleep pause w') = Some y"
    by blast
  with f show ?case
    by (subst retry_loop.simps) (simp split: sum.splits)
qed

lemma retry_terminates:
  assumes mono: "\<And>u. now u \<le> now (snd (func u))"
  shows "\<exists>y. retry func timeout exc_type w = Some y"
proof -
  obtain n :: nat where "timeout * 10 < real n"
    using reals_Archimedean2 by blast
  then have "(timeout + now w) - now w < real n / 10"
    by (simp add: field_simps)
  from retry_loop_terminates [OF mono _ this, of "1 / 10"] show ?thesis
    by (simp add: retry_def)
qed

text \<open>
  Claim C5. For every operation passed to \<^verbatim>\<open>retry\<close>, every timeout and every world in
  which retry starts, with the deadline \<open>timeout + now w\<close>: when the attempts before
  the attempt number \<open>n\<close> were all retried (none for \<open>n = 0\<close>, the first invocation),
  an attempt that returns a value other than \<^verbatim>\<open>False\<close> makes retry return that value at
  once, in the world the operation left; an attempt that raises an exception of the
  retried kind after which the deadline has passed makes retry raise that same
  exception; an attempt that returns \<^verbatim>\<open>False\<close> after which the deadline has passed
  makes retry raise \<^verbatim>\<open>CallableTimedOut\<close>; an exception of another kind is passed on.
  Conversely, whenever retry ends, it ends in one of these ways after some number of
  retried attempts. An operation that only ever returns \<^verbatim>\<open>False\<close> can make retry raise
  nothing but \<^verbatim>\<open>CallableTimedOut\<close>, and only after the deadline. Retry does end when
  the operation never moves the clock back.
\<close>

theorem retry_outcomes:
  "((\<forall>k<n. retried func exc_type (timeout + now w) (attempt_world func (1 / 10) k w)) \<longrightarrow>
       (func (attempt_world func (1 / 10) n w) = (Inr v, w') \<and> v \<noteq> PBool False
          \<longrightarrow> retry func timeout exc_type w = Some (Inr v, w'))
     \<and> (func (attempt_world func (1 / 10) n w) = (Inl e, w') \<and> exc_type e
            \<and> timeout + now w < now w'
          \<longrightarrow> retry func timeout exc_type w = Some (Inl e, w'))
     \<and> (func (attempt_world func (1 / 10) n w) = (Inr (PBool False), w')
            \<and> timeout + now w < now w'
          \<longrightarrow> retry func timeout exc_type w = Some (Inl CallableTimedOut, w'))
     \<and> (func (attempt_world func (1 / 10) n w) = (Inl e, w') \<and> \<not> exc_type e
          \<longrightarrow> retry func timeout exc_type w = Some (Inl e, w')))
   \<and> (retry func timeout exc_type w = Some (r, w1) \<longrightarrow>
        (\<exists>m. (\<forall>k<m. retried func exc_type (timeout + now w) (attempt_world func (1 / 10) k w))
           \<and> ((\<exists>x. func (attempt_world func (1 / 10) m w) = (Inr x, w1) \<and> x \<noteq> PBool False
                     \<and> r = Inr x)
              \<or> (func (attempt_world func (1 / 10) m w) = (Inr (PBool False), w1)
                    \<and> timeout + now w < now w1 \<and> r = Inl CallableTimedOut)
              \<or> (\<exists>x. func (attempt_world func (1 / 10) m w) = (Inl x, w1) \<and> r = Inl x
                    \<and> (exc_type x \<longrightarrow> timeout + now w < now w1)))))
   \<and> ((\<forall>u. fst (func u) = Inr (PBool False)) \<and> retry func timeout exc_type w = Some (r, w1)
        \<longrightarrow> r = Inl CallableTimedOut \<and> timeout + now w < now w1)
   \<and> ((\<forall>u. now u \<le> now (snd (func u))) \<longrightarrow> (\<exists>y. retry func timeout exc_type w = Some y))"
proof -
  let ?D = "timeout + now w"
  let ?u = "attempt_world func (1 / 10) n w"
  have fwd: "retry func timeout exc_type w =
               retry_loop func exc_type ?D ((next_pause ^^ n) (1 / 10)) ?u"
    if "\<forall>k<n. retried func exc_type ?D (attempt_world func (1 / 10) k w)"
    using retry_loop_skips_retried [OF that] by (simp add: retry_def)
  have a: "(func ?u = (Inr v, w') \<and> v \<noteq> PBool False
          \<longrightarrow> retry func timeout exc_type w = Some (Inr v, w'))
     \<and> (func ?u = (Inl e, w') \<and> exc_type e \<and> ?D < now w'
          \<longrightarrow> retry func timeout exc_type w = Some (Inl e, w'))
     \<and> (func ?u = (Inr (PBool False), w') \<and> ?D < now w'
          \<longrightarrow> retry func timeout exc_type w = Some (Inl CallableTimedOut, w'))
     \<and> (func ?u = (Inl e, w') \<and> \<not> exc_type e
          \<longrightarrow> retry func timeout exc_type w = Some (Inl e, w'))"
    if h: "\<forall>k<n. retried func exc_type ?D (attempt_world func (1 / 10) k w)"
    using retry_loop_returns [of func ?u v w' exc_type ?D "(next_pause ^^ n) (1 / 10)"]
      retry_loop_reraises [of func ?u e w' exc_type ?D "(next_pause ^^ n) (1 / 10)"]
      retry_loop_times_out [of func ?u w' ?D exc_type "(next_pause ^^ n) (1 / 10)"]
      retry_loop_propagates [of func ?u e w' exc_type ?D "(next_pause ^^ n) (1 / 10)"]
    by (simp add: fwd [OF h])
  have b: "\<exists>m. (\<forall>k<m. retried func exc_type ?D (attempt_world func (1 / 10) k w))
           \<and> ((\<exists>x. func (attempt_world func (1 / 10) m w) = (Inr x, w1) \<and> x \<noteq> PBool False
                     \<and> r = Inr x)
              \<or> (func (attempt_world func (1 / 10) m w) = (Inr (PBool False), w1)
                    \<and> ?D < now w1 \<and> r = Inl CallableTimedOut)
              \<or> (\<exists>x. func (attempt_world func (1 / 10) m w) = (Inl x, w1) \<and> r = Inl x
                    \<and> (exc_type x \<longrightarrow> ?D < now w1)))"
    if "retry func timeout exc_type w = Some (r, w1)"
    using retry_loop_run [of func exc_type ?D "1 / 10" w r w1] that
    by (simp add: retry_def)
  have c: "r = Inl CallableTimedOut \<and> ?D < now w1"
    if f: "\<forall>u. fst (func u) = Inr (PBool False)"
      and t: "retry func timeout exc_type w = Some (r, w1)"
  proof -
    from b [OF t] obtain m where
      "(\<exists>x. func (attempt_world func (1 / 10) m w) = (Inr x, w1) \<and> x \<noteq> PBool False \<and> r = Inr x)
       \<or> (func (attempt_world func (1 / 10) m w) = (Inr (PBool False), w1)
             \<and> ?D < now w1 \<and> r = Inl CallableTimedOut)
       \<or> (\<exists>x. func (attempt_world func (1 / 10) m w) = (Inl x, w1) \<and> r = Inl x
             \<and> (exc_type x \<longrightarrow> ?D < now w1))"
      by blast
    with f [rule_format, of "attempt_world func (1 / 10) m w"] show ?thesis by auto
  qed
  have d: "\<exists>y. retry func timeout exc_type w = Some y" if "\<forall>u. now u \<le> now (snd (func u))"
    using retry_terminates [of func timeout exc_type w] that by blast
  from a b c d show ?thesis by blast
qed

text \<open>
  Instances of the theorem in the example world, whose clock stands at 0: an operation
  that raises AssertionError once and then returns 7 makes retry return 7 after one
  pause of 0.1; the value 0 is returned at the first invocation; an AssertionError or a
  \<^verbatim>\<open>False\<close> at time 4, after the deadline 3, ends retry with that AssertionError or with
  \<^verbatim>\<open>CallableTimedOut\<close>; an operation that always returns \<^verbatim>\<open>False\<close> ends in
  \<^verbatim>\<open>CallableTimedOut\<close> after the deadline.
\<close>

theorem retry_outcomes_witness:
  "retry (\<lambda>w. if 0 < now w then (Inr (PInt 7), w) else (Inl (AssertionError ''not yet''), w))
       3 is_AssertionError example_world
     = Some (Inr (PInt 7), time_sleep (1 / 10) example_world)
   \<and> retry (\<lambda>w. (Inr (PInt 0), w)) 3 is_AssertionError example_world
     = Some (Inr (PInt 0), example_world)
   \<and> retry (\<lambda>w. (Inl (AssertionError ''no''), w\<lparr>now := 4\<rparr>)) 3 is_AssertionError example_world
     = Some (Inl (AssertionError ''no''), example_world\<lparr>now := 4\<rparr>)
   \<and> retry (\<lambda>w. (Inr (PBool False), w\<lparr>now := 4\<rparr>)) 3 is_AssertionError example_world
     = Some (Inl CallableTimedOut, example_world\<lparr>now := 4\<rparr>)
   \<and> (\<exists>w1. retry (\<lambda>w. (Inr (PBool False), w)) 3 is_AssertionError example_world
            = Some (Inl CallableTimedOut, w1) \<and> 3 < now w1)"
proof -
  let ?g = "\<lambda>w :: world. if 0 < now w then (Inr (PInt 7) :: exn + pyval, w)
                          else (Inl (AssertionError ''not yet''), w)"
  have n0: "now example_world = 0"
    by (simp add: example_world_def)
  have h: "\<forall>k<1. retried ?g is_AssertionError (3 + now example_world)
                   (attempt_world ?g (1 / 10) k example_world)"
    by (simp add: retried_def is_AssertionError_def n0)
  have s: "attempt_world ?g (1 / 10) 1 example_world = time_sleep (1 / 10) example_world"
    by (simp add: n0)
  have a: "retry ?g 3 is_AssertionError example_world
             = Some (Inr (PInt 7), time_sleep (1 / 10) example_world)"
    using retry_outcomes [where func = ?g and w = example_world and timeout = 3 and n = 1
        and exc_type = is_AssertionError and v = "PInt 7"
        and w' = "time_sleep (1 / 10) example_world", THEN conjunct1] h
    by (simp add: s now_time_sleep n0)
  have b: "retry (\<lambda>w. (Inr (PInt 0), w)) 3 is_AssertionError example_world
             = Some (Inr (PInt 0), example_world)"
    using retry_outcomes [where func = "\<lambda>w. (Inr (PInt 0), w)" and w = example_world
        and timeout = 3 and n = 0 and exc_type = is_AssertionError and v = "PInt 0"
        and w' = example_world, THEN conjunct1]
    by simp
  have c: "retry (\<lambda>w. (Inl (AssertionError ''no''), w\<lparr>now := 4\<rparr>)) 3 is_AssertionError
             example_world = Some (Inl (AssertionError ''no''), example_world\<lparr>now := 4\<rparr>)"
    using retry_outcomes [where func = "\<lambda>w. (Inl (AssertionError ''no''), w\<lparr>now := 4\<rparr>)"
        and w = example_world and timeout = 3 and n = 0 and exc_type = is_AssertionError
        and e = "AssertionError ''no''" and w' = "example_world\<lparr>now := 4\<rparr>", THEN conjunct1]
    by (simp add: is_AssertionError_def n0)
  have d: "retry (\<lambda>w. (Inr (PBool False), w\<lparr>now := 4\<rparr>)) 3 is_AssertionError example_world
             = Some (Inl CallableTimedOut, example_world\<lparr>now := 4\<rparr>)"
    using retry_outcomes [where func = "\<lambda>w. (Inr (PBool False), w\<lparr>now := 4\<rparr>)"
        and w = example_world and timeout = 3 and n = 0 and exc_type = is_AssertionError
        and w' = "example_world\<lparr>now := 4\<rparr>", THEN conjunct1]
    by (simp add: n0)
  let ?f = "\<lambda>w :: world. (Inr (PBool False) :: exn + pyval, w)"
  have "\<exists>y. retry ?f 3 is_AssertionError example_world = Some y"
    using retry_outcomes [where func = ?f and w = example_world and timeout = 3
        and exc_type = is_AssertionError,
        THEN conjunct2, THEN conjunct2, THEN conjunct2]
    by simp
  then obtain r w1 where y: "retry ?f 3 is_AssertionError example_world = Some (r, w1)"
    by auto
  have "r = Inl CallableTimedOut \<and> 3 < now w1"
    using retry_outcomes [where func = ?f and w = example_world and timeout = 3
        and exc_type = is_AssertionError and r = r and ?w1.0 = w1,
        THEN conjunct2, THEN conjunct2, THEN conjunct1] y
    by (simp add: n0)
  with y have e: "\<exists>w1. retry ?f 3 is_AssertionError example_world
                        = Some (Inl CallableTimedOut, w1) \<and> 3 < now w1"
    by blast
  from a b c d e show ?thesis by blast
qed

section \<open>The pauses of retry\<close>

text \<open>
  Claim C6 asks that no sleep between two attempts exceeds 1.0 time-unit. The pause is
  doubled as long as it is below 1 (lines 96-97), so from 0.8 it goes to 1.6 and stays
  there. With an operation that always returns \<^verbatim>\<open>False\<close> and a timeout of 3, the fifth
  sleep lasts 1.6.
\<close>

theorem retry_sleeps_longer_than_one:
  "retry (\<lambda>w. (Inr (PBool False), w)) 3 is_AssertionError example_world
     = Some (Inl CallableTimedOut,
         example_world\<lparr>now := 31 / 10,
           trace := [Sleep (1 / 10), Sleep (2 / 10), Sleep (4 / 10), Sleep (8 / 10),
                     Sleep (16 / 10)]\<rparr>)
   \<and> (1 :: real) < 16 / 10"
  by (simp add: retry_def)
    (simp add: retry_loop_retries_False retry_loop_times_out example_world_def time_sleep_def
      emit_def next_pause_def)

text \<open>The pauses in order, and their bound.\<close>

lemma next_pause_upper: "pause < 2 \<Longrightarrow> next_pause pause < 2"
  by (simp add: next_pause_def)

lemma next_pause_schedule:
  "next_pause (1 / 10) = 2 / 10" "next_pause (2 / 10) = 4 / 10" "next_pause (4 / 10) = 8 / 10"
  "next_pause (8 / 10) = 16 / 10" "next_pause (16 / 10) = 16 / 10"
  by (simp_all add: next_pause_def)

end
